theory Spec2Isabelle
  imports Main
begin

section \<open>Strings helpers of the Go standard library\<close>

text \<open>
  Go strings are byte sequences; they are modelled as \<open>string\<close> (a list of
  \<open>char\<close>, each one byte).
\<close>

text \<open>
  \<open>strings.Split(s, sep)\<close> for a separator of one byte: the pieces between the
  separators, so that the empty string gives one empty piece.
\<close>

fun strings_Split :: "string \<Rightarrow> char \<Rightarrow> string list" where
  "strings_Split [] sep = [[]]"
| "strings_Split (c # cs) sep =
     (if c = sep then [] # strings_Split cs sep
      else (case strings_Split cs sep of
              [] \<Rightarrow> [[c]]
            | p # ps \<Rightarrow> (c # p) # ps))"

section \<open>parseMount\<close>

text \<open>
  The loop of \<open>parseMount\<close>, with its index:
  \<^verbatim>\<open>for i := 0; i+2 < len(parts); i++ {
    if parts[i] == "v1" && parts[i+1] == "auth" { return parts[i+2] }
  }
  return ""\<close>
\<close>

function parseMount_loop :: "string list \<Rightarrow> nat \<Rightarrow> string" where
  "parseMount_loop parts i =
     (if i + 2 < length parts then
        (if parts ! i = ''v1'' \<and> parts ! (i + 1) = ''auth'' then parts ! (i + 2)
         else parseMount_loop parts (i + 1))
      else '''')"
  by pat_completeness auto
termination
  by (relation "measure (\<lambda>(parts, i). length parts - i)") auto

declare parseMount_loop.simps [simp del]

definition parseMount :: "string \<Rightarrow> string" where
  "parseMount redirectURI = parseMount_loop (strings_Split redirectURI CHR ''/'') 0"

section \<open>Errors and the net/url package\<close>

text \<open>
  A Go \<open>error\<close> value: a message, or the sentinel \<open>logical.ErrPermissionDenied\<close>.
  \<open>err_Error\<close> is its \<open>Error()\<close> method.
\<close>

datatype error = Error string | ErrPermissionDenied

fun err_Error :: "error \<Rightarrow> string" where
  "err_Error (Error m) = m"
| "err_Error ErrPermissionDenied = ''permission denied''"

text \<open>
  \<open>errwrap.Wrapf(prefix + "{{err}}", err)\<close> and \<open>fmt.Errorf(prefix + "%w", err)\<close>:
  an error whose message is the prefix followed by the message of \<open>err\<close>.
\<close>

definition Wrapf :: "string \<Rightarrow> error \<Rightarrow> error" where
  "Wrapf prefix err = Error (prefix @ err_Error err)"

text \<open>The struct \<open>url.URL\<close> of net/url, field by field.\<close>

record Userinfo =
  username :: string
  password :: string
  passwordSet :: bool

record URL =
  Scheme :: string
  Opaque :: string
  User :: "Userinfo option"
  Host :: string
  Path :: string
  RawPath :: string
  OmitHost :: bool
  ForceQuery :: bool
  RawQuery :: string
  Fragment :: string
  RawFragment :: string

text \<open>\<open>url.Values\<close> is \<open>map[string][]string\<close>; \<open>Get\<close> reads the first value of a key,
  \<open>Del\<close> removes the key.\<close>

type_synonym Values = "string \<rightharpoonup> string list"

definition Values_Get :: "Values \<Rightarrow> string \<Rightarrow> string" where
  "Values_Get v key = (case v key of None \<Rightarrow> '''' | Some [] \<Rightarrow> '''' | Some (x # xs) \<Rightarrow> x)"

definition Values_Del :: "Values \<Rightarrow> string \<Rightarrow> Values" where
  "Values_Del v key = v(key := None)"

text \<open>
  The functions of net/url that the handlers call are not part of the repository. They
  are parameters of the model: \<open>url.Parse\<close>, the methods \<open>Hostname\<close>, \<open>String\<close> and
  \<open>Query\<close> of \<open>*url.URL\<close>, \<open>Values.Encode\<close> and \<open>url.QueryEscape\<close>. Every theorem below
  holds for whatever these functions compute.
\<close>

record net_url =
  url_Parse :: "string \<Rightarrow> error + URL"
  url_Hostname :: "URL \<Rightarrow> string"
  url_String :: "URL \<Rightarrow> string"
  url_Query :: "URL \<Rightarrow> Values"
  Values_Encode :: "Values \<Rightarrow> string"
  url_QueryEscape :: "string \<Rightarrow> string"

text \<open>\<open>strutil.StrListContains(haystack, needle)\<close>: exact membership.\<close>

definition StrListContains :: "string list \<Rightarrow> string \<Rightarrow> bool" where
  "StrListContains haystack needle = (needle \<in> set haystack)"

text \<open>
  \<open>strings.Replace(s, old, new, 1)\<close>: the first occurrence of \<open>old\<close> in \<open>s\<close> is
  replaced; an empty \<open>old\<close> matches at the start.
\<close>

fun strings_Replace1 :: "string \<Rightarrow> string \<Rightarrow> string \<Rightarrow> string" where
  "strings_Replace1 [] old new = (if old = [] then new else [])"
| "strings_Replace1 (c # cs) old new =
     (if take (length old) (c # cs) = old then new @ drop (length old) (c # cs)
      else c # strings_Replace1 cs old new)"

section \<open>validRedirect\<close>

text \<open>
  The loop of \<open>validRedirect\<close> over the allow-list, entered with the candidate's host
  already replaced by its host name:
  \<^verbatim>\<open>for _, a := range allowed {
    allowedURI, err := url.Parse(a)
    if err != nil { return false }
    allowedURI.Host = allowedURI.Hostname()
    if inputURI.String() == allowedURI.String() { return true }
  }
  return false\<close>
\<close>

fun validRedirect_loop :: "net_url \<Rightarrow> URL \<Rightarrow> string list \<Rightarrow> bool" where
  "validRedirect_loop L inputURI [] = False"
| "validRedirect_loop L inputURI (a # allowed) =
     (case url_Parse L a of
        Inl err \<Rightarrow> False
      | Inr allowedURI \<Rightarrow>
          (if url_String L inputURI = url_String L (allowedURI\<lparr>Host := url_Hostname L allowedURI\<rparr>)
           then True
           else validRedirect_loop L inputURI allowed))"

definition validRedirect :: "net_url \<Rightarrow> string \<Rightarrow> string list \<Rightarrow> bool" where
  "validRedirect L uri allowed =
     (case url_Parse L uri of
        Inl err \<Rightarrow> False
      | Inr inputURI \<Rightarrow>
          (if \<not> StrListContains [''localhost'', ''127.0.0.1'', ''::1''] (url_Hostname L inputURI)
           then StrListContains allowed uri
           else validRedirect_loop L (inputURI\<lparr>Host := url_Hostname L inputURI\<rparr>) allowed))"

section \<open>Constants\<close>

definition errLoginFailed :: string where
  "errLoginFailed = ''Vault login failed.''"

definition errNoResponse :: string where
  "errNoResponse = ''No response from provider.''"

definition errTokenVerification :: string where
  "errTokenVerification = ''Token verification failed.''"

definition errNotOIDCFlow :: string where
  "errNotOIDCFlow = ''OIDC login is not configured for this mount''"

definition noCode :: string where
  "noCode = ''no_code''"

text \<open>
  Modelled from the spec: the constants \<open>callbackModeDirect\<close>, \<open>callbackModeClient\<close>,
  \<open>responseModeFormPost\<close>, \<open>responseTypeIDToken\<close> and \<open>responseTypeCode\<close> are declared
  in files of the repository other than \<open>path_oidc.go\<close>. The spec names the two callback
  modes "direct" and "client"; the proofs use only that the two mode strings differ.
\<close>

definition callbackModeDirect :: string where
  "callbackModeDirect = ''direct''"

definition callbackModeClient :: string where
  "callbackModeClient = ''client''"

definition responseModeFormPost :: string where
  "responseModeFormPost = ''form_post''"

definition responseTypeIDToken :: string where
  "responseTypeIDToken = ''id_token''"

definition responseTypeCode :: string where
  "responseTypeCode = ''code''"

text \<open>The keys and status codes of the Vault SDK and of net/http that the handlers write.\<close>

definition HTTPContentType :: string where
  "HTTPContentType = ''http_content_type''"

definition HTTPStatusCode :: string where
  "HTTPStatusCode = ''http_status_code''"

definition HTTPRawBody :: string where
  "HTTPRawBody = ''http_raw_body''"

definition StatusOK :: int where
  "StatusOK = 200"

definition StatusBadRequest :: int where
  "StatusBadRequest = 400"


text \<open>A \<open>time.Duration\<close>, in nanoseconds.\<close>

type_synonym duration = int

definition oidcRequestTimeout :: duration where
  "oidcRequestTimeout = 10 * 60 * 1000000000"

section \<open>Data of the Vault SDK, the role and the configuration\<close>

text \<open>
  A decoded JSON value (\<open>interface{}\<close> in a claims map). The handlers only ask whether
  the value of "sub" is a string.
\<close>

datatype json_value =
    JNull
  | JBool bool
  | JNumber int
  | JString string
  | JArray "json_value list"
  | JObject "(string \<times> json_value) list"

type_synonym claims = "string \<rightharpoonup> json_value"

record logical_Alias =
  Name :: string
  Metadata :: "string \<rightharpoonup> string"

record LeaseOptions =
  Renewable :: bool
  TTL :: duration
  MaxTTL :: duration

record logical_Auth =
  Policies :: "string list"
  DisplayName :: string
  Period :: duration
  NumUses :: int
  Alias :: logical_Alias
  GroupAliases :: "logical_Alias list"
  InternalData :: "string \<rightharpoonup> string"
  auth_Metadata :: "string \<rightharpoonup> string"
  auth_LeaseOptions :: LeaseOptions
  BoundCIDRs :: "string list"

text \<open>A value of the map \<open>Response.Data\<close>: a string, a status code or a raw body.\<close>

datatype data_value = StringVal string | IntVal int | BytesVal string

record logical_Response =
  Data :: "string \<rightharpoonup> data_value"
  Auth :: "logical_Auth option"

text \<open>\<open>logical.ErrorResponse(text)\<close>: a response whose data holds the text under "error".\<close>

definition ErrorResponse :: "string \<Rightarrow> logical_Response" where
  "ErrorResponse text = \<lparr>Data = [''error'' \<mapsto> StringVal text], Auth = None\<rparr>"

record logical_Connection =
  RemoteAddr :: string

record logical_Request =
  Connection :: "logical_Connection option"

text \<open>
  \<open>framework.FieldData\<close>: \<open>d.Get(name).(string)\<close> is the value of a string field, empty
  when the caller left it out.
\<close>

type_synonym FieldData = "string \<Rightarrow> string"

text \<open>The fields of \<open>jwtRole\<close> and \<open>jwtConfig\<close> that \<open>path_oidc.go\<close> reads.\<close>

record jwtRole =
  role_Policies :: "string list"
  role_Period :: duration
  role_NumUses :: int
  role_TTL :: duration
  role_MaxTTL :: duration
  role_BoundCIDRs :: "string list"
  TokenBoundCIDRs :: "string list"
  CallbackMode :: string
  AllowedRedirectURIs :: "string list"
  BoundSubject :: string
  BoundClaimsType :: string
  BoundClaims :: claims
  BoundAudiences :: "string list"
  OIDCScopes :: "string list"
  MaxAge :: duration
  VerboseOIDCLogging :: bool

record jwtConfig =
  OIDCResponseMode :: string
  DefaultRole :: string
  NamespaceInState :: bool

section \<open>The OIDC request and its store\<close>

text \<open>
  The options handed to \<open>oidc.NewRequest\<close>, and the request it returns (the interface
  \<open>oidc.Request\<close>: its state, its redirect URL, and the options it was made with).
\<close>

datatype oidc_Option =
    WithAudiences "string list"
  | WithScopes "string list"
  | WithImplicitFlow
  | WithPKCE string
  | WithMaxAge nat

record oidc_Request =
  State :: string
  RedirectURL :: string
  Options :: "oidc_Option list"

record oidcRequest =
  Request :: oidc_Request
  rolename :: string
  code :: string
  idToken :: string
  clientNonce :: string
  auth :: "logical_Auth option"

text \<open>
  \<open>b.oidcRequests\<close> is an expiring cache keyed by the state. The model keeps its live
  entries as a map; expiry, which the cache does on its own clock, only removes entries.
  The cache holds a pointer to the request, so writing a field of a request that was read
  from it and storing the request again is one update of the map.
\<close>

type_synonym store = "string \<rightharpoonup> oidcRequest"

definition setOIDCRequest :: "store \<Rightarrow> string \<Rightarrow> oidcRequest \<Rightarrow> store" where
  "setOIDCRequest s stateID oidcReq = s(stateID \<mapsto> oidcReq)"

definition getOIDCRequest :: "store \<Rightarrow> string \<Rightarrow> oidcRequest option" where
  "getOIDCRequest s stateID = s stateID"

definition deleteOIDCRequest :: "store \<Rightarrow> string \<Rightarrow> store" where
  "deleteOIDCRequest s stateID = s(stateID := None)"

section \<open>The collaborators of the backend\<close>

text \<open>
  A token of the provider (\<open>*oidc.Tk\<close>): its ID token; the token itself stands for the
  token source made from it.
\<close>

record oidc_Tk =
  IDToken :: string
  AccessToken :: string

text \<open>
  The provider (\<open>*oidc.Provider\<close>). \<open>UserInfo\<close> writes into the claims it is given and
  may do so before it fails, so it returns the claims together with its error.
\<close>

record oidc_Provider =
  VerifyIDToken :: "string \<Rightarrow> oidcRequest \<Rightarrow> error option"
  Exchange :: "oidcRequest \<Rightarrow> string \<Rightarrow> string \<Rightarrow> error + oidc_Tk"
  UserInfo :: "oidc_Tk \<Rightarrow> string \<Rightarrow> claims \<Rightarrow> error option \<times> claims"
  AuthURL :: "oidcRequest \<Rightarrow> error + string"

text \<open>
  Everything else the handlers call that lies outside \<open>path_oidc.go\<close>: the stored
  configuration and roles (\<open>b.config\<close>, \<open>b.role\<close>, which can fail or find nothing), the
  methods \<open>authType\<close> and \<open>hasType\<close> of the configuration with the constant \<open>OIDCFlow\<close>,
  \<open>b.getProvider\<close>, \<open>b.createIdentity\<close>, \<open>validateBoundClaims\<close>,
  \<open>cidrutil.RemoteAddrIsOk\<close>, \<open>role.PopulateTokenAuth\<close>, the claims of an ID token,
  \<open>oidc.NewCodeVerifier\<close>, \<open>oidc.NewRequest\<close>, the number of whole seconds of a
  duration as an unsigned integer, the three HTML pages, the \<open>%q\<close> quoting of \<open>fmt\<close>,
  \<open>logical.RespondWithStatusCode\<close>, and net/url. Logging has no effect on a result and
  is left out.
\<close>

record jwtAuthBackend =
  b_config :: "error + jwtConfig option"
  b_role :: "string \<Rightarrow> error + jwtRole option"
  authType :: "jwtConfig \<Rightarrow> nat"
  OIDCFlow :: nat
  hasType :: "jwtConfig \<Rightarrow> string \<Rightarrow> bool"
  b_getProvider :: "jwtConfig \<Rightarrow> error + oidc_Provider"
  b_createIdentity ::
    "claims \<Rightarrow> jwtRole \<Rightarrow> oidc_Tk option \<Rightarrow> error + (logical_Alias \<times> logical_Alias list)"
  validateBoundClaims :: "string \<Rightarrow> claims \<Rightarrow> claims \<Rightarrow> error option"
  RemoteAddrIsOk :: "string \<Rightarrow> string list \<Rightarrow> bool"
  PopulateTokenAuth :: "jwtRole \<Rightarrow> logical_Auth \<Rightarrow> logical_Auth"
  IDToken_Claims :: "string \<Rightarrow> error + claims"
  NewCodeVerifier :: "error + string"
  NewRequest :: "duration \<Rightarrow> string \<Rightarrow> oidc_Option list \<Rightarrow> error + oidc_Request"
  Seconds_uint :: "duration \<Rightarrow> nat"
  errorHTML :: "string \<Rightarrow> string \<Rightarrow> string"
  formpostHTML :: "string \<Rightarrow> string \<Rightarrow> string \<Rightarrow> string"
  successHTML :: string
  fmt_quote :: "string \<Rightarrow> string"
  RespondWithStatusCode :: "int \<Rightarrow> error + logical_Response"
  netURL :: net_url

section \<open>The handlers\<close>

text \<open>
  A handler returns \<open>(*logical.Response, error)\<close>: \<open>Inr resp\<close> is \<open>(resp, nil)\<close> and
  \<open>Inl err\<close> is \<open>(nil, err)\<close>. It also returns the store as it leaves it.
\<close>

type_synonym outcome = "(error + logical_Response) \<times> store"

subsection \<open>pathCallbackPost\<close>


subsection \<open>pathCallback\<close>

definition loginFailedResponse :: "jwtAuthBackend \<Rightarrow> bool \<Rightarrow> string \<Rightarrow> logical_Response" where
  "loginFailedResponse b useHttp msg =
     (if \<not> useHttp then ErrorResponse (errLoginFailed @ '' '' @ msg)
      else \<lparr>Data = [HTTPContentType \<mapsto> StringVal ''text/html'',
                    HTTPStatusCode \<mapsto> IntVal StatusBadRequest,
                    HTTPRawBody \<mapsto> BytesVal (errorHTML b errLoginFailed msg)],
            Auth = None\<rparr>)"

text \<open>
  The code that is exchanged:
  \<^verbatim>\<open>code := d.Get("code").(string)
  if code == noCode { code = oidcReq.code }\<close>
\<close>

definition callbackCode :: "FieldData \<Rightarrow> oidcRequest \<Rightarrow> string" where
  "callbackCode d oidcReq = (if d ''code'' = noCode then code oidcReq else d ''code'')"

text \<open>
  Getting the ID token: with no code the stored ID token is verified, otherwise the code
  is exchanged. \<open>Inl\<close> is an early return of the handler; \<open>Inr\<close> carries the raw ID token
  and the token of the exchange, if there was one.
\<close>

definition callbackToken ::
  "jwtAuthBackend \<Rightarrow> oidc_Provider \<Rightarrow> bool \<Rightarrow> oidcRequest \<Rightarrow> string \<Rightarrow> string
     \<Rightarrow> (error + logical_Response) + (string \<times> oidc_Tk option)" where
  "callbackToken b provider useHttp oidcReq stateID c =
     (if c = '''' then
        (if idToken oidcReq = ''''
         then Inl (Inr (loginFailedResponse b useHttp ''No code or id_token received.''))
         else (case VerifyIDToken provider (idToken oidcReq) oidcReq of
                 Some err \<Rightarrow>
                   Inl (Inr (ErrorResponse (errTokenVerification @ '' '' @ err_Error err)))
               | None \<Rightarrow> Inr (idToken oidcReq, None)))
      else
        (case Exchange provider oidcReq stateID c of
           Inl err \<Rightarrow>
             Inl (Inr (loginFailedResponse b useHttp
                         (''Error exchanging oidc code: '' @ fmt_quote b (err_Error err) @ ''.'')))
         | Inr token \<Rightarrow> Inr (IDToken token, Some token)))"

text \<open>The credential built from the role and the alias, then handed to
  \<open>role.PopulateTokenAuth\<close>.\<close>

definition buildAuth ::
  "jwtAuthBackend \<Rightarrow> jwtRole \<Rightarrow> string \<Rightarrow> logical_Alias \<Rightarrow> logical_Alias list \<Rightarrow> logical_Auth" where
  "buildAuth b role roleName alias groupAliases =
     PopulateTokenAuth b role
       \<lparr>Policies = role_Policies role,
        DisplayName = Name alias,
        Period = role_Period role,
        NumUses = role_NumUses role,
        Alias = alias,
        GroupAliases = groupAliases,
        InternalData = [''role'' \<mapsto> roleName],
        auth_Metadata = [''role'' \<mapsto> roleName] ++ Metadata alias,
        auth_LeaseOptions = \<lparr>Renewable = True, TTL = role_TTL role, MaxTTL = role_MaxTTL role\<rparr>,
        BoundCIDRs = role_BoundCIDRs role\<rparr>"

text \<open>From the parsing of the claims to the response (the rest of \<open>pathCallback\<close>).\<close>

definition callbackFinish ::
  "jwtAuthBackend \<Rightarrow> store \<Rightarrow> oidc_Provider \<Rightarrow> jwtRole \<Rightarrow> string \<Rightarrow> bool \<Rightarrow> string
     \<Rightarrow> oidcRequest \<Rightarrow> string \<Rightarrow> oidc_Tk option \<Rightarrow> outcome" where
  "callbackFinish b s provider role roleName useHttp stateID oidcReq rawToken token =
     (case IDToken_Claims b rawToken of
        Inl err \<Rightarrow> (Inl err, s)
      | Inr parsed \<Rightarrow>
          let allClaims = parsed(''nonce'' := None);
              subject = (case allClaims ''sub'' of Some (JString subStr) \<Rightarrow> subStr | _ \<Rightarrow> '''')
          in if BoundSubject role \<noteq> '''' \<and> BoundSubject role \<noteq> subject
             then (Inr (loginFailedResponse b useHttp ''sub claim does not match bound subject''), s)
             else
               let allClaims' = (case token of
                                   None \<Rightarrow> allClaims
                                 | Some tokenSource \<Rightarrow>
                                     snd (UserInfo provider tokenSource subject allClaims))
               in (case b_createIdentity b allClaims' role token of
                     Inl err \<Rightarrow> (Inr (loginFailedResponse b useHttp (err_Error err)), s)
                   | Inr (alias, groupAliases) \<Rightarrow>
                       (case validateBoundClaims b (BoundClaimsType role) (BoundClaims role)
                               allClaims' of
                          Some err \<Rightarrow>
                            (Inr (loginFailedResponse b useHttp
                                    (''error validating claims: '' @ err_Error err)), s)
                        | None \<Rightarrow>
                            if useHttp
                            then (Inr \<lparr>Data = [HTTPContentType \<mapsto> StringVal ''text/html'',
                                               HTTPStatusCode \<mapsto> IntVal StatusOK,
                                               HTTPRawBody \<mapsto> BytesVal (successHTML b)],
                                       Auth = None\<rparr>,
                                  setOIDCRequest s stateID
                                    (oidcReq\<lparr>auth :=
                                       Some (buildAuth b role roleName alias groupAliases)\<rparr>))
                            else (Inr \<lparr>Data = Map.empty,
                                       Auth = Some (buildAuth b role roleName alias groupAliases)\<rparr>,
                                  s))))"

text \<open>
  The check of the bound CIDRs refuses the login when the role has bound CIDRs and the
  request has no connection, or its remote address is not within them:
  \<^verbatim>\<open>if len(role.TokenBoundCIDRs) > 0 {
    if req.Connection == nil { return nil, logical.ErrPermissionDenied }
    if !cidrutil.RemoteAddrIsOk(req.Connection.RemoteAddr, role.TokenBoundCIDRs) {
      return nil, logical.ErrPermissionDenied
    }
  }\<close>
\<close>

definition cidrDenied :: "jwtAuthBackend \<Rightarrow> jwtRole \<Rightarrow> logical_Request \<Rightarrow> bool" where
  "cidrDenied b role req =
     (length (TokenBoundCIDRs role) > 0
      \<and> (case Connection req of
             None \<Rightarrow> True
           | Some conn \<Rightarrow> \<not> RemoteAddrIsOk b (RemoteAddr conn) (TokenBoundCIDRs role)))"

text \<open>
  From the check of the bound CIDRs to the choice of the code. The store \<open>s\<close> is the one
  left by the first part of the handler.
\<close>

definition callbackLogin ::
  "jwtAuthBackend \<Rightarrow> store \<Rightarrow> logical_Request \<Rightarrow> FieldData \<Rightarrow> jwtConfig \<Rightarrow> jwtRole
     \<Rightarrow> string \<Rightarrow> bool \<Rightarrow> string \<Rightarrow> oidcRequest \<Rightarrow> outcome" where
  "callbackLogin b s req d config role roleName useHttp stateID oidcReq =
     (if cidrDenied b role req then (Inl ErrPermissionDenied, s)
      else
        (case b_getProvider b config of
           Inl err \<Rightarrow> (Inl (Wrapf ''error getting provider for login operation: '' err), s)
         | Inr provider \<Rightarrow>
             (case callbackToken b provider useHttp oidcReq stateID (callbackCode d oidcReq) of
                Inl early \<Rightarrow> (early, s)
              | Inr (rawToken, token) \<Rightarrow>
                  callbackFinish b s provider role roleName useHttp stateID oidcReq
                    rawToken token)))"

definition pathCallback ::
  "jwtAuthBackend \<Rightarrow> store \<Rightarrow> logical_Request \<Rightarrow> FieldData \<Rightarrow> outcome" where
  "pathCallback b s req d =
     (case b_config b of
        Inl err \<Rightarrow> (Inl err, s)
      | Inr None \<Rightarrow> (Inr (ErrorResponse (errLoginFailed @ '' Could not load configuration'')), s)
      | Inr (Some config) \<Rightarrow>
          let stateID = d ''state'' in
          (case getOIDCRequest s stateID of
             None \<Rightarrow>
               (Inr (ErrorResponse (errLoginFailed @ '' Expired or missing OAuth state.'')), s)
           | Some oidcReq \<Rightarrow>
               if auth oidcReq \<noteq> None
               then (Inr (ErrorResponse (errLoginFailed @ '' Expired or missing OAuth state.'')), s)
               else
                 let roleName = rolename oidcReq in
                 (case b_role b roleName of
                    Inl err \<Rightarrow> (Inl err, deleteOIDCRequest s stateID)
                  | Inr None \<Rightarrow>
                      (Inr (ErrorResponse (errLoginFailed @ '' Role could not be found'')),
                       deleteOIDCRequest s stateID)
                  | Inr (Some role) \<Rightarrow>
                      let useHttp = (CallbackMode role = callbackModeDirect);
                          s1 = (if \<not> useHttp then deleteOIDCRequest s stateID else s)
                      in if d ''error_description'' \<noteq> ''''
                         then (Inr (loginFailedResponse b useHttp (d ''error_description'')), s1)
                         else if clientNonce oidcReq \<noteq> ''''
                                 \<and> d ''client_nonce'' \<noteq> clientNonce oidcReq \<and> \<not> useHttp
                         then (Inr (ErrorResponse ''invalid client_nonce''), s1)
                         else callbackLogin b s1 req d config role roleName useHttp stateID
                                oidcReq)))"

subsection \<open>pathPoll\<close>

definition pathPoll ::
  "jwtAuthBackend \<Rightarrow> store \<Rightarrow> logical_Request \<Rightarrow> FieldData \<Rightarrow> outcome" where
  "pathPoll b s req d =
     (let stateID = d ''state'' in
      case getOIDCRequest s stateID of
        None \<Rightarrow> (Inr (ErrorResponse (errLoginFailed @ '' Expired or missing OAuth state.'')), s)
      | Some oidcReq \<Rightarrow>
          if clientNonce oidcReq \<noteq> '''' \<and> d ''client_nonce'' \<noteq> clientNonce oidcReq
          then (Inr (ErrorResponse ''invalid client_nonce''), deleteOIDCRequest s stateID)
          else if auth oidcReq = None
          then (Inr (ErrorResponse ''authorization_pending''), s)
          else (Inr \<lparr>Data = Map.empty, Auth = auth oidcReq\<rparr>, deleteOIDCRequest s stateID))"

subsection \<open>createOIDCRequest and authURL\<close>

text \<open>
  \<open>createOIDCRequest\<close> fails before it writes to the store, or stores the new request
  under the state that \<open>oidc.NewRequest\<close> gave it.
\<close>

definition createOIDCRequest ::
  "jwtAuthBackend \<Rightarrow> store \<Rightarrow> jwtConfig \<Rightarrow> jwtRole \<Rightarrow> string \<Rightarrow> string \<Rightarrow> string
     \<Rightarrow> (error + oidcRequest) \<times> store" where
  "createOIDCRequest b s config role roleName redirectURI nonce =
     (let options = [WithAudiences (BoundAudiences role), WithScopes (OIDCScopes role)] in
      case (if hasType b config responseTypeIDToken then Inr (options @ [WithImplicitFlow])
            else if hasType b config responseTypeCode then
              (case NewCodeVerifier b of
                 Inl err \<Rightarrow> Inl (Wrapf ''error creating code challenge: '' err)
               | Inr v \<Rightarrow> Inr (options @ [WithPKCE v]))
            else Inr options) of
        Inl err \<Rightarrow> (Inl err, s)
      | Inr options1 \<Rightarrow>
          let options2 = (if MaxAge role > 0
                          then options1 @ [WithMaxAge (Seconds_uint b (MaxAge role))]
                          else options1)
          in (case NewRequest b oidcRequestTimeout redirectURI options2 of
                Inl err \<Rightarrow> (Inl err, s)
              | Inr request \<Rightarrow>
                  let oidcReq = \<lparr>Request = request, rolename = roleName, code = '''',
                                 idToken = '''', clientNonce = nonce, auth = None\<rparr>
                  in (Inr oidcReq, s(State request \<mapsto> oidcReq))))"

text \<open>
  The namespace step of \<open>authURL\<close>: with \<open>NamespaceInState\<close> the redirect URI is parsed
  and a namespace query parameter is taken out of it. \<open>None\<close> is the parse error;
  otherwise the namespace and the redirect URI to go on with.
\<close>

definition authURL_namespace ::
  "jwtAuthBackend \<Rightarrow> jwtConfig \<Rightarrow> string \<Rightarrow> (string \<times> string) option" where
  "authURL_namespace b config redirectURI =
     (if NamespaceInState config then
        (case url_Parse (netURL b) redirectURI of
           Inl err \<Rightarrow> None
         | Inr inputURI \<Rightarrow>
             let qParam = url_Query (netURL b) inputURI;
                 namespace = Values_Get qParam ''namespace''
             in if length namespace > 0
                then Some (namespace,
                       url_String (netURL b)
                         (inputURI\<lparr>RawQuery :=
                            Values_Encode (netURL b) (Values_Del qParam ''namespace'')\<rparr>))
                else Some (namespace, redirectURI))
      else Some ('''', redirectURI))"

text \<open>The default response of \<open>authURL\<close>: an empty \<open>auth_url\<close>.\<close>

definition emptyAuthURL :: logical_Response where
  "emptyAuthURL = \<lparr>Data = [''auth_url'' \<mapsto> StringVal ''''], Auth = None\<rparr>"

text \<open>From the validation of the redirect URI to the response.\<close>

definition authURL_request ::
  "jwtAuthBackend \<Rightarrow> store \<Rightarrow> jwtConfig \<Rightarrow> jwtRole \<Rightarrow> string \<Rightarrow> string \<Rightarrow> string
     \<Rightarrow> string \<Rightarrow> outcome" where
  "authURL_request b s config role roleName nonce namespace redirectURI =
     (if \<not> validRedirect (netURL b) redirectURI (AllowedRedirectURIs role)
      then (Inr emptyAuthURL, s)
      else
        let redirectURI' = (if OIDCResponseMode config = responseModeFormPost
                            then strings_Replace1 redirectURI ''ui/vault'' ''v1''
                            else redirectURI)
        in (case b_getProvider b config of
              Inl err \<Rightarrow> (Inr emptyAuthURL, s)
            | Inr provider \<Rightarrow>
                (case createOIDCRequest b s config role roleName redirectURI' nonce of
                   (Inl err, s') \<Rightarrow> (Inr emptyAuthURL, s')
                 | (Inr oidcReq, s') \<Rightarrow>
                     (case AuthURL provider oidcReq of
                        Inl err \<Rightarrow> (Inr emptyAuthURL, s')
                      | Inr urlStr \<Rightarrow>
                          let urlStr' =
                                (if NamespaceInState config \<and> length namespace > 0
                                 then strings_Replace1 urlStr (State (Request oidcReq))
                                        (url_QueryEscape (netURL b)
                                           (State (Request oidcReq) @ '',ns='' @ namespace))
                                 else urlStr);
                              data = (Data emptyAuthURL)(''auth_url'' \<mapsto> StringVal urlStr')
                          in if CallbackMode role = callbackModeDirect
                             then (Inr (emptyAuthURL\<lparr>Data := data
                                      (''state'' \<mapsto> StringVal (State (Request oidcReq)),
                                       ''poll_interval'' \<mapsto> StringVal ''5'')\<rparr>), s')
                             else (Inr (emptyAuthURL\<lparr>Data := data\<rparr>), s')))))"

definition authURL ::
  "jwtAuthBackend \<Rightarrow> store \<Rightarrow> logical_Request \<Rightarrow> FieldData \<Rightarrow> outcome" where
  "authURL b s req d =
     (case b_config b of
        Inl err \<Rightarrow> (Inl err, s)
      | Inr None \<Rightarrow> (Inr (ErrorResponse ''could not load configuration''), s)
      | Inr (Some config) \<Rightarrow>
          if authType b config \<noteq> OIDCFlow b then (Inr (ErrorResponse errNotOIDCFlow), s)
          else
            let roleName = (if d ''role'' = '''' then DefaultRole config else d ''role'') in
            if roleName = '''' then (Inr (ErrorResponse ''missing role''), s)
            else if d ''redirect_uri'' = '''' then (Inr (ErrorResponse ''missing redirect_uri''), s)
            else
              (case b_role b roleName of
                 Inl err \<Rightarrow> (Inl err, s)
               | Inr None \<Rightarrow>
                   (Inr (ErrorResponse (''role '' @ fmt_quote b roleName @ '' could not be found'')),
                    s)
               | Inr (Some role) \<Rightarrow>
                   if d ''client_nonce'' = '''' \<and> CallbackMode role \<noteq> callbackModeClient
                   then (Inr (ErrorResponse ''missing client_nonce''), s)
                   else
                     (case authURL_namespace b config (d ''redirect_uri'') of
                        None \<Rightarrow> (Inr emptyAuthURL, s)
                      | Some (namespace, redirectURI) \<Rightarrow>
                          authURL_request b s config role roleName (d ''client_nonce'')
                            namespace redirectURI)))"

section \<open>A small instance of the collaborators, for the examples\<close>

text \<open>
  The theorems are stated for every backend. Their examples need one. \<open>example_url\<close>
  computes what net/url computes on the URLs used in the examples: a string that begins
  with a colon has no scheme and is refused ("missing protocol scheme"); a string
  \<open>scheme://host[:port]/path\<close> of letters, digits, dots and dashes is split into scheme,
  host and path; a string without a colon is a path; \<open>Hostname\<close> drops a final
  \<open>:digits\<close> and a pair of square brackets; \<open>String\<close> puts scheme, host and path
  together again. Queries, fragments, user information and escapes do not occur in the
  examples and are not covered.
\<close>

definition example_Parse :: "string \<Rightarrow> error + URL" where
  "example_Parse rawURL =
     (let scheme = takeWhile (\<lambda>c. c \<noteq> CHR '':'') rawURL;
          rest = drop (length scheme) rawURL;
          blank = \<lparr>Scheme = '''', Opaque = '''', User = None, Host = '''', Path = '''',
                   RawPath = '''', OmitHost = False, ForceQuery = False, RawQuery = '''',
                   Fragment = '''', RawFragment = ''''\<rparr>
      in if scheme = '''' \<and> rest \<noteq> '''' then Inl (Error ''missing protocol scheme'')
         else if rest = '''' then Inr (blank\<lparr>Path := rawURL\<rparr>)
         else if take 3 rest = ''://''
         then Inr (blank\<lparr>Scheme := scheme,
                         Host := takeWhile (\<lambda>c. c \<noteq> CHR ''/'') (drop 3 rest),
                         Path := dropWhile (\<lambda>c. c \<noteq> CHR ''/'') (drop 3 rest)\<rparr>)
         else Inr (blank\<lparr>Scheme := scheme, Opaque := drop 1 rest\<rparr>))"

definition example_Hostname :: "URL \<Rightarrow> string" where
  "example_Hostname u =
     (let port = takeWhile (\<lambda>c. c \<noteq> CHR '':'') (rev (Host u));
          host = (if length port < length (Host u) \<and> list_all (\<lambda>c. c \<in> set ''0123456789'') port
                  then take (length (Host u) - length port - 1) (Host u)
                  else Host u)
      in if host \<noteq> '''' \<and> hd host = CHR ''['' \<and> last host = CHR '']''
         then butlast (tl host) else host)"

definition example_String :: "URL \<Rightarrow> string" where
  "example_String u =
     (if Scheme u \<noteq> '''' then Scheme u @ '':'' else '''')
     @ (if Opaque u \<noteq> '''' then Opaque u
        else (if (Scheme u \<noteq> '''' \<or> Host u \<noteq> '''') \<and> (Host u \<noteq> '''' \<or> Path u \<noteq> '''')
              then ''//'' @ Host u else '''') @ Path u)"

definition example_url :: net_url where
  "example_url =
     \<lparr>url_Parse = example_Parse,
      url_Hostname = example_Hostname,
      url_String = example_String,
      url_Query = (\<lambda>u. Map.empty),
      Values_Encode = (\<lambda>v. ''''),
      url_QueryEscape = (\<lambda>x. x)\<rparr>"

text \<open>
  A provider that exchanges the code \<open>good-code\<close> for a token and refuses every other
  code, and a backend with one role \<open>dev\<close>, whose callback mode and whose configured
  response mode are the two arguments. Every new request gets the state \<open>st-1\<close>.
\<close>

definition example_provider :: oidc_Provider where
  "example_provider =
     \<lparr>VerifyIDToken = (\<lambda>rawToken oidcReq. None),
      Exchange = (\<lambda>oidcReq stateID c.
         if c = ''good-code'' then Inr \<lparr>IDToken = ''id-token'', AccessToken = ''access-token''\<rparr>
         else Inl (Error ''invalid_grant'')),
      UserInfo = (\<lambda>tokenSource subject allClaims. (None, allClaims)),
      AuthURL = (\<lambda>oidcReq. Inr (''https://idp.example/authorize?state='' @ State (Request oidcReq)))\<rparr>"

definition example_role :: "string \<Rightarrow> jwtRole" where
  "example_role mode =
     \<lparr>role_Policies = [''default''],
      role_Period = 0,
      role_NumUses = 0,
      role_TTL = 0,
      role_MaxTTL = 0,
      role_BoundCIDRs = [],
      TokenBoundCIDRs = [],
      CallbackMode = mode,
      AllowedRedirectURIs = [''https://vault.example/v1/auth/jwt-test/oidc/callback''],
      BoundSubject = '''',
      BoundClaimsType = ''string'',
      BoundClaims = Map.empty,
      BoundAudiences = [],
      OIDCScopes = [],
      MaxAge = 0,
      VerboseOIDCLogging = False\<rparr>"

definition example_config :: "string \<Rightarrow> jwtConfig" where
  "example_config responseMode =
     \<lparr>OIDCResponseMode = responseMode, DefaultRole = '''', NamespaceInState = False\<rparr>"

definition example_backend :: "string \<Rightarrow> string \<Rightarrow> jwtAuthBackend" where
  "example_backend mode responseMode =
     \<lparr>b_config = Inr (Some (example_config responseMode)),
      b_role = (\<lambda>name. if name = ''dev'' then Inr (Some (example_role mode)) else Inr None),
      authType = (\<lambda>config. 1),
      OIDCFlow = 1,
      hasType = (\<lambda>config t. t = responseTypeCode),
      b_getProvider = (\<lambda>config. Inr example_provider),
      b_createIdentity = (\<lambda>allClaims role tokenSource.
         Inr (\<lparr>Name = ''alice'', Metadata = Map.empty\<rparr>, [])),
      validateBoundClaims = (\<lambda>claimsType bound allClaims. None),
      RemoteAddrIsOk = (\<lambda>addr cidrs. True),
      PopulateTokenAuth = (\<lambda>role a. a),
      IDToken_Claims = (\<lambda>rawToken. Inr [''sub'' \<mapsto> JString ''alice'']),
      NewCodeVerifier = Inr ''verifier'',
      NewRequest = (\<lambda>timeout redirectURI options.
         Inr \<lparr>State = ''st-1'', RedirectURL = redirectURI, Options = options\<rparr>),
      Seconds_uint = (\<lambda>t. nat (t div 1000000000)),
      errorHTML = (\<lambda>title msg. title @ '': '' @ msg),
      formpostHTML = (\<lambda>mount c stateID. mount @ '' '' @ c @ '' '' @ stateID),
      successHTML = ''success'',
      fmt_quote = (\<lambda>x. [CHR 0x22] @ x @ [CHR 0x22]),
      RespondWithStatusCode = (\<lambda>status. Inr \<lparr>Data = [HTTPStatusCode \<mapsto> IntVal status], Auth = None\<rparr>),
      netURL = example_url\<rparr>"

text \<open>A backend whose configuration is missing.\<close>

definition example_unconfigured :: jwtAuthBackend where
  "example_unconfigured = (example_backend callbackModeClient ''query'')\<lparr>b_config := Inr None\<rparr>"

text \<open>
  A stored request of the role \<open>dev\<close> under the state \<open>st-1\<close>, made with the client nonce
  \<open>n-1\<close>; the fields of a callback and of a poll; a request without connection data.
\<close>

definition example_request :: oidcRequest where
  "example_request =
     \<lparr>Request = \<lparr>State = ''st-1'',
                  RedirectURL = ''https://vault.example/v1/auth/jwt-test/oidc/callback'',
                  Options = []\<rparr>,
      rolename = ''dev'', code = '''', idToken = '''', clientNonce = ''n-1'', auth = None\<rparr>"

definition example_store :: store where
  "example_store = [''st-1'' \<mapsto> example_request]"

definition fieldData :: "(string \<times> string) list \<Rightarrow> FieldData" where
  "fieldData kvs = (\<lambda>name. case map_of kvs name of None \<Rightarrow> '''' | Some v \<Rightarrow> v)"

definition example_req :: logical_Request where
  "example_req = \<lparr>Connection = None\<rparr>"

text \<open>The credential that the example backend builds for the role \<open>dev\<close>.\<close>

definition example_auth :: logical_Auth where
  "example_auth =
     buildAuth (example_backend callbackModeDirect ''query'') (example_role callbackModeDirect)
       ''dev'' \<lparr>Name = ''alice'', Metadata = Map.empty\<rparr> []"

section \<open>Properties of parseMount\<close>

lemma parseMount_loop_skip:
  "i \<le> k \<Longrightarrow> \<forall>j. i \<le> j \<and> j < k \<longrightarrow> \<not> (parts ! j = ''v1'' \<and> parts ! (j + 1) = ''auth'')
   \<Longrightarrow> k + 2 < length parts
   \<Longrightarrow> parseMount_loop parts i = parseMount_loop parts k"
proof (induction "k - i" arbitrary: i)
  case 0
  then show ?case by simp
next
  case (Suc d)
  then have lt: "i < k" and len: "i + 2 < length parts" by auto
  from Suc.prems lt have nomatch: "\<not> (parts ! i = ''v1'' \<and> parts ! (i + 1) = ''auth'')"
    by auto
  have step: "parseMount_loop parts i = parseMount_loop parts (i + 1)"
    using len nomatch by (subst parseMount_loop.simps) auto
  have "parseMount_loop parts (i + 1) = parseMount_loop parts k"
  proof (rule Suc.hyps(1))
    show "d = k - (i + 1)" using Suc.hyps(2) by simp
    show "i + 1 \<le> k" using lt by simp
    show "\<forall>j. i + 1 \<le> j \<and> j < k \<longrightarrow> \<not> (parts ! j = ''v1'' \<and> parts ! (j + 1) = ''auth'')"
      using Suc.prems(2) by auto
    show "k + 2 < length parts" by (rule Suc.prems(3))
  qed
  with step show ?case by simp
qed

lemma parseMount_loop_none:
  "\<forall>j. i \<le> j \<and> j + 2 < length parts \<longrightarrow> \<not> (parts ! j = ''v1'' \<and> parts ! (j + 1) = ''auth'')
   \<Longrightarrow> parseMount_loop parts i = ''''"
proof (induction parts i rule: parseMount_loop.induct)
  case (1 parts i)
  show ?case
  proof (cases "i + 2 < length parts")
    case True
    with "1.prems" have nomatch: "\<not> (parts ! i = ''v1'' \<and> parts ! (i + 1) = ''auth'')"
      by auto
    have "parseMount_loop parts (i + 1) = ''''"
      using "1.IH" [OF True nomatch] "1.prems" by auto
    then show ?thesis
      using True nomatch by (subst parseMount_loop.simps) auto
  next
    case False
    then show ?thesis by (subst parseMount_loop.simps) simp
  qed
qed

text \<open>
  C9. Split the redirect URI on "/" and scan the segments from the left: at the first
  index \<open>i\<close> where segment \<open>i\<close> is "v1", segment \<open>i+1\<close> is "auth" and a third segment
  \<open>i+2\<close> exists, \<open>parseMount\<close> returns segment \<open>i+2\<close>; when no index has these
  three segments it returns the empty string. For
  \<open>https://host/v1/auth/jwt-test/oidc/callback\<close> the result is \<open>jwt-test\<close>.
\<close>

theorem parseMount_first_v1_auth:
  "(\<forall>i. i + 2 < length (strings_Split uri CHR ''/'')
        \<and> strings_Split uri CHR ''/'' ! i = ''v1''
        \<and> strings_Split uri CHR ''/'' ! (i + 1) = ''auth''
        \<and> (\<forall>j<i. \<not> (strings_Split uri CHR ''/'' ! j = ''v1''
                     \<and> strings_Split uri CHR ''/'' ! (j + 1) = ''auth''))
        \<longrightarrow> parseMount uri = strings_Split uri CHR ''/'' ! (i + 2))
   \<and> ((\<forall>i. i + 2 < length (strings_Split uri CHR ''/'')
          \<longrightarrow> \<not> (strings_Split uri CHR ''/'' ! i = ''v1''
                 \<and> strings_Split uri CHR ''/'' ! (i + 1) = ''auth''))
        \<longrightarrow> parseMount uri = '''')
   \<and> parseMount ''https://host/v1/auth/jwt-test/oidc/callback'' = ''jwt-test''"
proof (intro conjI allI impI)
  fix i
  let ?parts = "strings_Split uri CHR ''/''"
  assume a: "i + 2 < length ?parts \<and> ?parts ! i = ''v1'' \<and> ?parts ! (i + 1) = ''auth''
        \<and> (\<forall>j<i. \<not> (?parts ! j = ''v1'' \<and> ?parts ! (j + 1) = ''auth''))"
  then have "parseMount_loop ?parts 0 = parseMount_loop ?parts i"
    by (intro parseMount_loop_skip) auto
  also have "\<dots> = ?parts ! (i + 2)"
    using a by (subst parseMount_loop.simps) simp
  finally show "parseMount uri = ?parts ! (i + 2)"
    by (simp add: parseMount_def)
next
  let ?parts = "strings_Split uri CHR ''/''"
  assume "\<forall>i. i + 2 < length ?parts \<longrightarrow> \<not> (?parts ! i = ''v1'' \<and> ?parts ! (i + 1) = ''auth'')"
  then have "parseMount_loop ?parts 0 = ''''"
    by (intro parseMount_loop_none) auto
  then show "parseMount uri = ''''"
    by (simp add: parseMount_def)
next
  show "parseMount ''https://host/v1/auth/jwt-test/oidc/callback'' = ''jwt-test''"
    by code_simp
qed

theorem parseMount_first_v1_auth_witness:
  "parseMount ''a/v1/auth/m'' = ''m'' \<and> parseMount ''a/b'' = ''''"
proof
  have s1: "strings_Split ''a/v1/auth/m'' CHR ''/'' = [''a'', ''v1'', ''auth'', ''m'']"
    by simp
  have "parseMount ''a/v1/auth/m'' = strings_Split ''a/v1/auth/m'' CHR ''/'' ! (1 + 2)"
    using parseMount_first_v1_auth [of "''a/v1/auth/m''"] unfolding s1
    by (elim conjE allE [of _ 1]) simp
  then show "parseMount ''a/v1/auth/m'' = ''m''"
    unfolding s1 by simp
next
  have s2: "strings_Split ''a/b'' CHR ''/'' = [''a'', ''b'']"
    by simp
  show "parseMount ''a/b'' = ''''"
    using parseMount_first_v1_auth [of "''a/b''"] unfolding s2 by simp
qed

section \<open>Responses, and the nonce rule of authURL\<close>

lemma ErrorResponse_eq_iff: "ErrorResponse x = ErrorResponse y \<longleftrightarrow> x = y"
proof
  assume "ErrorResponse x = ErrorResponse y"
  then have "Data (ErrorResponse x) ''error'' = Data (ErrorResponse y) ''error''"
    by simp
  then show "x = y"
    by (simp add: ErrorResponse_def)
qed simp

lemma ErrorResponse_error: "Data (ErrorResponse x) ''error'' = Some (StringVal x)"
  by (simp add: ErrorResponse_def)

lemma not_ErrorResponse: "Data r ''error'' = None \<Longrightarrow> r \<noteq> ErrorResponse x"
  by (auto simp: ErrorResponse_def)

lemma createOIDCRequest_error_store:
  "createOIDCRequest b s config role roleName redirectURI nonce = (Inl err, s') \<Longrightarrow> s' = s"
  by (auto simp: createOIDCRequest_def Let_def split: if_splits sum.splits)

lemma authURL_request_no_error:
  "\<exists>r. fst (authURL_request b s config role roleName nonce namespace redirectURI) = Inr r
       \<and> Data r ''error'' = None"
  unfolding authURL_request_def Let_def emptyAuthURL_def
  by (auto split: sum.splits prod.splits)

text \<open>
  C1, as amended. Take a call of \<open>authURL\<close> that reaches the nonce check: the
  configuration loads and is an OIDC-flow configuration, the role name (the field or
  the default role) and the redirect URI are not empty, and the role exists. When its
  \<open>client_nonce\<close> is empty the call fails with "missing client_nonce" exactly when the
  callback mode of the role is not "client"; in particular it fails in direct mode,
  leaving the store as it was, and in client mode the empty nonce is accepted: the call
  goes on with the namespace step and the validation of the redirect URI.
\<close>

theorem authURL_missing_client_nonce:
  assumes "b_config b = Inr (Some config)"
    and "authType b config = OIDCFlow b"
    and "roleName = (if d ''role'' = '''' then DefaultRole config else d ''role'')"
    and "roleName \<noteq> ''''"
    and "d ''redirect_uri'' \<noteq> ''''"
    and "b_role b roleName = Inr (Some role)"
    and "d ''client_nonce'' = ''''"
  shows "(fst (authURL b s req d) = Inr (ErrorResponse ''missing client_nonce'')
            \<longleftrightarrow> CallbackMode role \<noteq> callbackModeClient)
       \<and> (CallbackMode role = callbackModeDirect
            \<longrightarrow> authURL b s req d = (Inr (ErrorResponse ''missing client_nonce''), s))
       \<and> (CallbackMode role = callbackModeClient
            \<longrightarrow> authURL b s req d
                  = (case authURL_namespace b config (d ''redirect_uri'') of
                       None \<Rightarrow> (Inr emptyAuthURL, s)
                     | Some (namespace, redirectURI) \<Rightarrow>
                         authURL_request b s config role roleName '''' namespace redirectURI))"
proof -
  have continues: "authURL b s req d
                  = (case authURL_namespace b config (d ''redirect_uri'') of
                       None \<Rightarrow> (Inr emptyAuthURL, s)
                     | Some (namespace, redirectURI) \<Rightarrow>
                         authURL_request b s config role roleName '''' namespace redirectURI)"
    if "CallbackMode role = callbackModeClient"
    using assms that by (simp add: authURL_def split: option.splits)
  have rejected: "authURL b s req d = (Inr (ErrorResponse ''missing client_nonce''), s)"
    if "CallbackMode role \<noteq> callbackModeClient"
    using assms that by (simp add: authURL_def)
  have accepted: "fst (authURL b s req d) \<noteq> Inr (ErrorResponse ''missing client_nonce'')"
    if client: "CallbackMode role = callbackModeClient"
  proof (cases "authURL_namespace b config (d ''redirect_uri'')")
    case None
    then have "fst (authURL b s req d) = Inr emptyAuthURL"
      using assms client by (simp add: authURL_def)
    moreover have "emptyAuthURL \<noteq> ErrorResponse ''missing client_nonce''"
      by (rule not_ErrorResponse) (simp add: emptyAuthURL_def)
    ultimately show ?thesis by simp
  next
    case (Some p)
    obtain namespace redirectURI where p: "p = (namespace, redirectURI)"
      by (cases p)
    obtain r where r: "fst (authURL_request b s config role roleName '''' namespace redirectURI) = Inr r"
      and noerr: "Data r ''error'' = None"
      using authURL_request_no_error by blast
    have "fst (authURL b s req d) = Inr r"
      using assms client Some p r by (simp add: authURL_def)
    moreover have "r \<noteq> ErrorResponse ''missing client_nonce''"
      using noerr by (rule not_ErrorResponse)
    ultimately show ?thesis by simp
  qed
  have modes: "callbackModeDirect \<noteq> callbackModeClient"
    by (simp add: callbackModeDirect_def callbackModeClient_def)
  show ?thesis
  proof (intro conjI impI)
    show "fst (authURL b s req d) = Inr (ErrorResponse ''missing client_nonce'')
            \<longleftrightarrow> CallbackMode role \<noteq> callbackModeClient"
    proof (cases "CallbackMode role = callbackModeClient")
      case True
      with accepted show ?thesis by simp
    next
      case False
      with rejected show ?thesis by simp
    qed
  next
    assume "CallbackMode role = callbackModeDirect"
    with modes have "CallbackMode role \<noteq> callbackModeClient" by simp
    then show "authURL b s req d = (Inr (ErrorResponse ''missing client_nonce''), s)"
      by (rule rejected)
  next
    assume "CallbackMode role = callbackModeClient"
    then show "authURL b s req d
                  = (case authURL_namespace b config (d ''redirect_uri'') of
                       None \<Rightarrow> (Inr emptyAuthURL, s)
                     | Some (namespace, redirectURI) \<Rightarrow>
                         authURL_request b s config role roleName '''' namespace redirectURI)"
      by (rule continues)
  qed
qed


lemmas example_defs =
  example_backend_def example_config_def example_role_def example_provider_def
  example_url_def example_Parse_def example_Hostname_def example_String_def
  example_unconfigured_def example_request_def example_store_def example_req_def fieldData_def

lemmas const_defs =
  errLoginFailed_def errTokenVerification_def errNotOIDCFlow_def noCode_def
  callbackModeDirect_def callbackModeClient_def responseModeFormPost_def
  responseTypeIDToken_def responseTypeCode_def

text \<open>
  The theorem at the example backend: with the role in direct mode a call without
  \<open>client_nonce\<close> is refused, with the role in client mode it is not.
\<close>

theorem authURL_missing_client_nonce_witness:
  "fst (authURL (example_backend callbackModeDirect ''query'') Map.empty example_req
          (fieldData [(''role'', ''dev''),
                   (''redirect_uri'', ''https://vault.example/v1/auth/jwt-test/oidc/callback'')]))
     = Inr (ErrorResponse ''missing client_nonce'')
   \<and> fst (authURL (example_backend callbackModeClient ''query'') Map.empty example_req
          (fieldData [(''role'', ''dev''),
                   (''redirect_uri'', ''https://vault.example/v1/auth/jwt-test/oidc/callback'')]))
     \<noteq> Inr (ErrorResponse ''missing client_nonce'')"
proof
  let ?d = "fieldData [(''role'', ''dev''),
                   (''redirect_uri'', ''https://vault.example/v1/auth/jwt-test/oidc/callback'')]"
  let ?bd = "example_backend callbackModeDirect ''query''"
  let ?bc = "example_backend callbackModeClient ''query''"
  have d: "?d ''role'' = ''dev''" "?d ''client_nonce'' = ''''"
    "?d ''redirect_uri'' = ''https://vault.example/v1/auth/jwt-test/oidc/callback''"
    by (simp_all add: fieldData_def)
  have 1: "b_config ?bd = Inr (Some (example_config ''query''))"
    "b_config ?bc = Inr (Some (example_config ''query''))"
    and 2: "authType ?bd (example_config ''query'') = OIDCFlow ?bd"
    "authType ?bc (example_config ''query'') = OIDCFlow ?bc"
    and 6: "b_role ?bd ''dev'' = Inr (Some (example_role callbackModeDirect))"
    "b_role ?bc ''dev'' = Inr (Some (example_role callbackModeClient))"
    by (simp_all add: example_backend_def)
  have 3: "''dev'' = (if ?d ''role'' = '''' then DefaultRole (example_config ''query'') else ?d ''role'')"
    unfolding d by simp
  have 4: "''dev'' \<noteq> ''''" by simp
  have 5: "?d ''redirect_uri'' \<noteq> ''''" unfolding d by simp
  have 7: "?d ''client_nonce'' = ''''" by (rule d)
  have modes: "CallbackMode (example_role callbackModeDirect) = callbackModeDirect"
    "CallbackMode (example_role callbackModeClient) = callbackModeClient"
    by (simp_all add: example_role_def)
  from authURL_missing_client_nonce
    [where s = Map.empty and req = example_req, OF 1(1) 2(1) 3 4 5 6(1) 7,
     THEN conjunct2, THEN conjunct1] modes(1)
  have "authURL ?bd Map.empty example_req ?d
          = (Inr (ErrorResponse ''missing client_nonce''), Map.empty)"
    by (rule mp)
  then show "fst (authURL ?bd Map.empty example_req ?d)
          = Inr (ErrorResponse ''missing client_nonce'')"
    by simp
  from authURL_missing_client_nonce
    [where s = Map.empty and req = example_req, OF 1(2) 2(2) 3 4 5 6(2) 7, THEN conjunct1]
    modes(2)
  show "fst (authURL ?bc Map.empty example_req ?d)
          \<noteq> Inr (ErrorResponse ''missing client_nonce'')"
    by simp
qed

text \<open>
  C1 as stated says that a missing nonce is rejected exactly when the role is not in
  direct mode. At the example backend the role in direct mode has the call without
  \<open>client_nonce\<close> rejected, and the role in client mode, which is not direct, has it
  accepted: the call returns the authorization URL and stores the request.
\<close>

theorem authURL_nonce_rule_counterexample:
  "CallbackMode (example_role callbackModeDirect) = callbackModeDirect
   \<and> fst (authURL (example_backend callbackModeDirect ''query'') Map.empty example_req
          (fieldData [(''role'', ''dev''),
                   (''redirect_uri'', ''https://vault.example/v1/auth/jwt-test/oidc/callback'')]))
     = Inr (ErrorResponse ''missing client_nonce'')
   \<and> CallbackMode (example_role callbackModeClient) \<noteq> callbackModeDirect
   \<and> authURL (example_backend callbackModeClient ''query'') Map.empty example_req
          (fieldData [(''role'', ''dev''),
                   (''redirect_uri'', ''https://vault.example/v1/auth/jwt-test/oidc/callback'')])
     = (Inr \<lparr>Data = [''auth_url'' \<mapsto> StringVal ''https://idp.example/authorize?state=st-1''],
             Auth = None\<rparr>,
        [''st-1'' \<mapsto>
           \<lparr>Request = \<lparr>State = ''st-1'',
                        RedirectURL = ''https://vault.example/v1/auth/jwt-test/oidc/callback'',
                        Options = [WithAudiences [], WithScopes [], WithPKCE ''verifier'']\<rparr>,
            rolename = ''dev'', code = '''', idToken = '''', clientNonce = '''', auth = None\<rparr>])"
  by (simp add: authURL_def authURL_namespace_def authURL_request_def createOIDCRequest_def
      validRedirect_def StrListContains_def emptyAuthURL_def Let_def example_defs const_defs)

section \<open>Expired or missing state\<close>

lemma callbackFinish_client_store:
  "snd (callbackFinish b s provider role roleName False stateID oidcReq rawToken token) = s"
  by (simp add: callbackFinish_def Let_def split: sum.splits option.splits prod.splits)

lemma callbackLogin_client_store:
  "snd (callbackLogin b s req d config role roleName False stateID oidcReq) = s"
  by (simp add: callbackLogin_def callbackFinish_client_store split: sum.splits prod.splits)

lemma pathPoll_absent:
  "s (d ''state'') = None \<Longrightarrow>
   pathPoll b s req d = (Inr (ErrorResponse ''Vault login failed. Expired or missing OAuth state.''), s)"
  by (simp add: pathPoll_def getOIDCRequest_def errLoginFailed_def)

lemma pathCallback_absent:
  "b_config b = Inr (Some config) \<Longrightarrow> s (d ''state'') = None \<Longrightarrow>
   pathCallback b s req d = (Inr (ErrorResponse ''Vault login failed. Expired or missing OAuth state.''), s)"
  by (simp add: pathCallback_def getOIDCRequest_def errLoginFailed_def)

lemma pathCallback_resolved:
  "b_config b = Inr (Some config) \<Longrightarrow> s (d ''state'') = Some r \<Longrightarrow> auth r = Some a \<Longrightarrow>
   pathCallback b s req d = (Inr (ErrorResponse ''Vault login failed. Expired or missing OAuth state.''), s)"
  by (simp add: pathCallback_def getOIDCRequest_def errLoginFailed_def)

text \<open>
  C3, as amended. When the configuration loads, \<open>pathCallback\<close> fails with
  "Vault login failed. Expired or missing OAuth state." whenever the state is absent
  from the store or the stored request has a credential attached, and leaves the store
  as it was. \<open>pathPoll\<close> fails with the same error whenever the state is absent, whatever
  the configuration, and leaves the store as it was.
\<close>

theorem expired_or_missing_state:
  "(b_config b = Inr (Some config)
      \<and> (s (d ''state'') = None \<or> (\<exists>r a. s (d ''state'') = Some r \<and> auth r = Some a))
    \<longrightarrow> pathCallback b s req d
          = (Inr (ErrorResponse ''Vault login failed. Expired or missing OAuth state.''), s))
   \<and> (s (d ''state'') = None
    \<longrightarrow> pathPoll b s req d
          = (Inr (ErrorResponse ''Vault login failed. Expired or missing OAuth state.''), s))"
proof (intro conjI impI)
  assume a: "b_config b = Inr (Some config)
      \<and> (s (d ''state'') = None \<or> (\<exists>r a. s (d ''state'') = Some r \<and> auth r = Some a))"
  then have cfg: "b_config b = Inr (Some config)" by (rule conjunct1)
  from a have "s (d ''state'') = None \<or> (\<exists>r a. s (d ''state'') = Some r \<and> auth r = Some a)"
    by (rule conjunct2)
  then show "pathCallback b s req d
          = (Inr (ErrorResponse ''Vault login failed. Expired or missing OAuth state.''), s)"
  proof
    assume "s (d ''state'') = None"
    with cfg show ?thesis by (rule pathCallback_absent)
  next
    assume "\<exists>r a. s (d ''state'') = Some r \<and> auth r = Some a"
    then obtain r a where "s (d ''state'') = Some r" and "auth r = Some a" by (elim exE conjE)
    with cfg show ?thesis by (rule pathCallback_resolved)
  qed
next
  assume "s (d ''state'') = None"
  then show "pathPoll b s req d
          = (Inr (ErrorResponse ''Vault login failed. Expired or missing OAuth state.''), s)"
    by (rule pathPoll_absent)
qed

text \<open>The theorem at the example backend and the empty store.\<close>

theorem expired_or_missing_state_witness:
  "pathCallback (example_backend callbackModeClient ''query'') Map.empty example_req
       (fieldData [(''state'', ''st-1'')])
     = (Inr (ErrorResponse ''Vault login failed. Expired or missing OAuth state.''), Map.empty)
   \<and> pathPoll (example_backend callbackModeClient ''query'') Map.empty example_req
       (fieldData [(''state'', ''st-1'')])
     = (Inr (ErrorResponse ''Vault login failed. Expired or missing OAuth state.''), Map.empty)"
  using expired_or_missing_state
    [of "example_backend callbackModeClient ''query''" "example_config ''query''" Map.empty
        "fieldData [(''state'', ''st-1'')]" example_req]
  by (simp add: example_backend_def)

text \<open>
  C3 as stated has no condition on the configuration. \<open>pathCallback\<close> loads the
  configuration before it looks the state up: on a backend without configuration a
  callback for an absent state fails with "Could not load configuration", not with the
  error for an expired or missing state.
\<close>

theorem pathCallback_unconfigured_counterexample:
  "getOIDCRequest Map.empty ''st-1'' = None
   \<and> fst (pathCallback example_unconfigured Map.empty example_req (fieldData [(''state'', ''st-1'')]))
       = Inr (ErrorResponse ''Vault login failed. Could not load configuration'')
   \<and> fst (pathCallback example_unconfigured Map.empty example_req (fieldData [(''state'', ''st-1'')]))
       \<noteq> Inr (ErrorResponse ''Vault login failed. Expired or missing OAuth state.'')"
  by (simp add: pathCallback_def getOIDCRequest_def ErrorResponse_eq_iff example_defs const_defs)

section \<open>Single use of the request in client mode\<close>

text \<open>
  C4. Take a callback whose state is in the store without a credential, on a backend
  whose configuration loads, and whose role resolves to a role that is not in direct
  mode. Whatever the fields of the callback are and whatever the provider and the other
  collaborators answer (so on every path through the provider-error check, the nonce
  check, the CIDR check, the verification of the token and the building of the
  credential, failing or not), the store that \<open>pathCallback\<close> leaves is the old one with
  the entry removed. A later poll or callback with the same state finds nothing and
  fails with "Expired or missing OAuth state."
\<close>

theorem pathCallback_client_mode_deletes:
  assumes "b_config b = Inr (Some config)"
    and "s (d ''state'') = Some r"
    and "auth r = None"
    and "b_role b (rolename r) = Inr (Some role)"
    and "CallbackMode role \<noteq> callbackModeDirect"
  shows "snd (pathCallback b s req d) = s(d ''state'' := None)
       \<and> getOIDCRequest (snd (pathCallback b s req d)) (d ''state'') = None
       \<and> (d' ''state'' = d ''state'' \<longrightarrow>
            fst (pathPoll b (snd (pathCallback b s req d)) req' d')
              = Inr (ErrorResponse ''Vault login failed. Expired or missing OAuth state.'')
          \<and> fst (pathCallback b (snd (pathCallback b s req d)) req' d')
              = Inr (ErrorResponse ''Vault login failed. Expired or missing OAuth state.''))"
proof -
  have del: "snd (pathCallback b s req d) = s(d ''state'' := None)"
    using assms
    by (simp add: pathCallback_def getOIDCRequest_def deleteOIDCRequest_def Let_def
        callbackLogin_client_store)
  have gone: "snd (pathCallback b s req d) (d ''state'') = None"
    by (simp add: del)
  have poll: "fst (pathPoll b (snd (pathCallback b s req d)) req' d')
              = Inr (ErrorResponse ''Vault login failed. Expired or missing OAuth state.'')"
    if "d' ''state'' = d ''state''"
  proof -
    have "snd (pathCallback b s req d) (d' ''state'') = None"
      using gone that by simp
    then show ?thesis
      using pathPoll_absent [of "snd (pathCallback b s req d)" d' b req'] by simp
  qed
  have again: "fst (pathCallback b (snd (pathCallback b s req d)) req' d')
              = Inr (ErrorResponse ''Vault login failed. Expired or missing OAuth state.'')"
    if "d' ''state'' = d ''state''"
  proof -
    have "snd (pathCallback b s req d) (d' ''state'') = None"
      using gone that by simp
    then show ?thesis
      using pathCallback_absent [of b config "snd (pathCallback b s req d)" d' req'] assms(1)
      by simp
  qed
  have get: "getOIDCRequest (snd (pathCallback b s req d)) (d ''state'') = None"
    unfolding getOIDCRequest_def by (rule gone)
  show ?thesis
    using del get poll again by (intro conjI impI)
qed


text \<open>
  The theorem at the example backend in client mode: a callback with a code the
  provider refuses still removes the entry, and the next poll finds nothing.
\<close>

theorem pathCallback_client_mode_deletes_witness:
  "snd (pathCallback (example_backend callbackModeClient ''query'') example_store example_req
          (fieldData [(''state'', ''st-1''), (''code'', ''bad-code''), (''client_nonce'', ''n-1'')]))
     = example_store(''st-1'' := None)
   \<and> fst (pathPoll (example_backend callbackModeClient ''query'')
            (snd (pathCallback (example_backend callbackModeClient ''query'') example_store
                    example_req
                    (fieldData [(''state'', ''st-1''), (''code'', ''bad-code''),
                             (''client_nonce'', ''n-1'')])))
            example_req (fieldData [(''state'', ''st-1''), (''client_nonce'', ''n-1'')]))
       = Inr (ErrorResponse ''Vault login failed. Expired or missing OAuth state.'')"
proof -
  let ?b = "example_backend callbackModeClient ''query''"
  let ?d = "fieldData [(''state'', ''st-1''), (''code'', ''bad-code''), (''client_nonce'', ''n-1'')]"
  let ?d' = "fieldData [(''state'', ''st-1''), (''client_nonce'', ''n-1'')]"
  have 1: "b_config ?b = Inr (Some (example_config ''query''))"
    by (simp add: example_backend_def)
  have 2: "example_store (?d ''state'') = Some example_request"
    by (simp add: example_store_def fieldData_def)
  have 3: "auth example_request = None"
    by (simp add: example_request_def)
  have 4: "b_role ?b (rolename example_request) = Inr (Some (example_role callbackModeClient))"
    by (simp add: example_backend_def example_request_def)
  have 5: "CallbackMode (example_role callbackModeClient) \<noteq> callbackModeDirect"
    by (simp add: example_role_def callbackModeClient_def callbackModeDirect_def)
  have 6: "?d' ''state'' = ?d ''state''"
    by (simp add: fieldData_def)
  have 7: "?d ''state'' = ''st-1''"
    by (simp add: fieldData_def)
  note t = pathCallback_client_mode_deletes
         [where b = "?b" and s = example_store and d = "?d" and r = example_request
            and req = example_req and d' = "?d'" and req' = example_req, OF 1 2 3 4 5]
  from t have "snd (pathCallback ?b example_store example_req ?d) = example_store(?d ''state'' := None)"
    by (rule conjunct1)
  then have a: "snd (pathCallback ?b example_store example_req ?d) = example_store(''st-1'' := None)"
    unfolding 7 .
  from t 6 have b: "fst (pathPoll ?b (snd (pathCallback ?b example_store example_req ?d)) example_req ?d')
       = Inr (ErrorResponse ''Vault login failed. Expired or missing OAuth state.'')"
    by (elim conjE impE) 
  from a b show ?thesis
    by (rule conjI)
qed

section \<open>The callback and the poll in direct mode\<close>

lemma loginFailedResponse_status:
  "Data (loginFailedResponse b useHttp msg) HTTPStatusCode \<noteq> Some (IntVal StatusOK)"
  by (simp add: loginFailedResponse_def ErrorResponse_def HTTPStatusCode_def HTTPRawBody_def
      HTTPContentType_def StatusOK_def StatusBadRequest_def)

lemma ErrorResponse_status:
  "Data (ErrorResponse x) HTTPStatusCode \<noteq> Some (IntVal StatusOK)"
  by (simp add: ErrorResponse_def HTTPStatusCode_def)

lemma callbackFinish_direct_success:
  assumes "callbackFinish b s provider role roleName True stateID oidcReq rawToken token
             = (Inr resp, s')"
    and "Data resp HTTPStatusCode = Some (IntVal StatusOK)"
  shows "\<exists>a. s' = s(stateID \<mapsto> oidcReq\<lparr>auth := Some a\<rparr>)"
  using assms loginFailedResponse_status [of b True]
  by (auto simp: callbackFinish_def Let_def setOIDCRequest_def
      split: sum.splits option.splits prod.splits if_splits)

lemma callbackToken_early_status:
  "callbackToken b provider useHttp oidcReq stateID c = Inl (Inr resp)
   \<Longrightarrow> Data resp HTTPStatusCode \<noteq> Some (IntVal StatusOK)"
  using loginFailedResponse_status [of b useHttp] ErrorResponse_status
  by (auto simp: callbackToken_def split: if_splits option.splits sum.splits)

lemma callbackLogin_direct_success:
  assumes "callbackLogin b s req d config role roleName True stateID oidcReq = (Inr resp, s')"
    and "Data resp HTTPStatusCode = Some (IntVal StatusOK)"
  shows "\<exists>a. s' = s(stateID \<mapsto> oidcReq\<lparr>auth := Some a\<rparr>)"
  using assms callbackToken_early_status [of b _ True oidcReq stateID "callbackCode d oidcReq" resp]
    callbackFinish_direct_success [of b s _ role roleName stateID oidcReq _ _ resp s']
  by (auto simp: callbackLogin_def split: if_splits sum.splits prod.splits)

lemma pathCallback_direct_success:
  assumes "b_config b = Inr (Some config)"
    and "s (d ''state'') = Some r"
    and "auth r = None"
    and "b_role b (rolename r) = Inr (Some role)"
    and "CallbackMode role = callbackModeDirect"
    and "pathCallback b s req d = (Inr resp, s')"
    and "Data resp HTTPStatusCode = Some (IntVal StatusOK)"
  shows "\<exists>a. s' = s(d ''state'' \<mapsto> r\<lparr>auth := Some a\<rparr>)"
proof -
  have nodesc: "d ''error_description'' = ''''"
  proof (rule ccontr)
    assume "d ''error_description'' \<noteq> ''''"
    then have "resp = loginFailedResponse b True (d ''error_description'')"
      using assms(1-6) by (simp add: pathCallback_def getOIDCRequest_def Let_def)
    with assms(7) loginFailedResponse_status [of b True "d ''error_description''"]
    show False by simp
  qed
  have "callbackLogin b s req d config role (rolename r) True (d ''state'') r = (Inr resp, s')"
    using assms(1-6) nodesc by (simp add: pathCallback_def getOIDCRequest_def Let_def)
  from callbackLogin_direct_success [OF this assms(7)] show ?thesis .
qed

lemma pathPoll_pending:
  "s (d ''state'') = Some r \<Longrightarrow> auth r = None
   \<Longrightarrow> clientNonce r = '''' \<or> d ''client_nonce'' = clientNonce r
   \<Longrightarrow> pathPoll b s req d = (Inr (ErrorResponse ''authorization_pending''), s)"
  by (auto simp: pathPoll_def getOIDCRequest_def)

lemma pathPoll_deliver:
  "s (d ''state'') = Some r \<Longrightarrow> auth r = Some a
   \<Longrightarrow> clientNonce r = '''' \<or> d ''client_nonce'' = clientNonce r
   \<Longrightarrow> pathPoll b s req d = (Inr \<lparr>Data = Map.empty, Auth = Some a\<rparr>, s(d ''state'' := None))"
  by (auto simp: pathPoll_def getOIDCRequest_def deleteOIDCRequest_def)

lemma pathPoll_mismatch:
  "s (d ''state'') = Some r \<Longrightarrow> clientNonce r \<noteq> '''' \<Longrightarrow> d ''client_nonce'' \<noteq> clientNonce r
   \<Longrightarrow> pathPoll b s req d = (Inr (ErrorResponse ''invalid client_nonce''), s(d ''state'' := None))"
  by (simp add: pathPoll_def getOIDCRequest_def deleteOIDCRequest_def)

text \<open>
  C5, as amended. The polls are those that pass the nonce check of \<open>pathPoll\<close> (the
  stored client nonce is empty or the poll supplies it). For a stored request without a
  credential such a poll returns "authorization_pending" and leaves the store as it
  was. When \<open>pathCallback\<close> for a role in direct mode has returned the success page
  (status 200), the store holds the request with a credential attached; the next such
  poll returns this credential and removes the entry, and every further poll with the
  same state fails with "Expired or missing OAuth state."
\<close>

theorem direct_mode_poll_delivery:
  "(s (d ''state'') = Some r \<and> auth r = None
      \<and> (clientNonce r = '''' \<or> d ''client_nonce'' = clientNonce r)
    \<longrightarrow> pathPoll b s req d = (Inr (ErrorResponse ''authorization_pending''), s))
   \<and> (b_config b = Inr (Some config) \<and> s (d ''state'') = Some r \<and> auth r = None
      \<and> b_role b (rolename r) = Inr (Some role) \<and> CallbackMode role = callbackModeDirect
      \<and> pathCallback b s req d = (Inr resp, s')
      \<and> Data resp HTTPStatusCode = Some (IntVal StatusOK)
      \<and> p ''state'' = d ''state'' \<and> p' ''state'' = d ''state''
      \<and> (clientNonce r = '''' \<or> p ''client_nonce'' = clientNonce r)
    \<longrightarrow> (\<exists>a. s' (d ''state'') = Some (r\<lparr>auth := Some a\<rparr>)
           \<and> pathPoll b s' req p
               = (Inr \<lparr>Data = Map.empty, Auth = Some a\<rparr>, s'(d ''state'' := None))
           \<and> pathPoll b (s'(d ''state'' := None)) req p'
               = (Inr (ErrorResponse ''Vault login failed. Expired or missing OAuth state.''),
                  s'(d ''state'' := None))))"
proof (intro conjI impI)
  assume "s (d ''state'') = Some r \<and> auth r = None
      \<and> (clientNonce r = '''' \<or> d ''client_nonce'' = clientNonce r)"
  then show "pathPoll b s req d = (Inr (ErrorResponse ''authorization_pending''), s)"
    using pathPoll_pending [of s d r b req] by (elim conjE) simp
next
  assume a: "b_config b = Inr (Some config) \<and> s (d ''state'') = Some r \<and> auth r = None
      \<and> b_role b (rolename r) = Inr (Some role) \<and> CallbackMode role = callbackModeDirect
      \<and> pathCallback b s req d = (Inr resp, s')
      \<and> Data resp HTTPStatusCode = Some (IntVal StatusOK)
      \<and> p ''state'' = d ''state'' \<and> p' ''state'' = d ''state''
      \<and> (clientNonce r = '''' \<or> p ''client_nonce'' = clientNonce r)"
  then have pst: "p ''state'' = d ''state''" and pst': "p' ''state'' = d ''state''"
    and nonce: "clientNonce r = '''' \<or> p ''client_nonce'' = clientNonce r"
    by blast+
  from a obtain a' where s': "s' = s(d ''state'' \<mapsto> r\<lparr>auth := Some a'\<rparr>)"
    using pathCallback_direct_success [of b config s d r role req resp s'] by (elim conjE) blast
  have stored: "s' (d ''state'') = Some (r\<lparr>auth := Some a'\<rparr>)"
    by (simp add: s')
  have "pathPoll b s' req p
          = (Inr \<lparr>Data = Map.empty, Auth = Some a'\<rparr>, s'(p ''state'' := None))"
    using pathPoll_deliver [of s' p "r\<lparr>auth := Some a'\<rparr>" a' b req] stored pst nonce
    by simp
  then have deliver: "pathPoll b s' req p
          = (Inr \<lparr>Data = Map.empty, Auth = Some a'\<rparr>, s'(d ''state'' := None))"
    by (simp add: pst)
  have "(s'(d ''state'' := None)) (p' ''state'') = None"
    by (simp add: pst')
  then have after: "pathPoll b (s'(d ''state'' := None)) req p'
               = (Inr (ErrorResponse ''Vault login failed. Expired or missing OAuth state.''),
                  s'(d ''state'' := None))"
    by (rule pathPoll_absent)
  from stored deliver after
  show "\<exists>a. s' (d ''state'') = Some (r\<lparr>auth := Some a\<rparr>)
           \<and> pathPoll b s' req p
               = (Inr \<lparr>Data = Map.empty, Auth = Some a\<rparr>, s'(d ''state'' := None))
           \<and> pathPoll b (s'(d ''state'' := None)) req p'
               = (Inr (ErrorResponse ''Vault login failed. Expired or missing OAuth state.''),
                  s'(d ''state'' := None))"
    by (intro exI [of _ a'] conjI)
qed

lemma example_direct_callback:
  "pathCallback (example_backend callbackModeDirect ''query'') example_store example_req
     (fieldData [(''state'', ''st-1''), (''code'', ''good-code''), (''client_nonce'', n)])
   = (Inr \<lparr>Data = [HTTPContentType \<mapsto> StringVal ''text/html'',
                    HTTPStatusCode \<mapsto> IntVal StatusOK,
                    HTTPRawBody \<mapsto> BytesVal ''success''],
            Auth = None\<rparr>,
      example_store(''st-1'' \<mapsto> example_request\<lparr>auth := Some example_auth\<rparr>))"
  by (simp add: pathCallback_def callbackLogin_def callbackToken_def callbackFinish_def
      callbackCode_def cidrDenied_def getOIDCRequest_def setOIDCRequest_def Let_def
      example_auth_def example_backend_def example_config_def example_role_def
      example_provider_def example_request_def example_store_def example_req_def fieldData_def
      noCode_def callbackModeDirect_def)

text \<open>
  The theorem at the example backend in direct mode: pending before the callback, the
  credential after it, and nothing at the second poll.
\<close>

theorem direct_mode_poll_delivery_witness:
  "pathPoll (example_backend callbackModeDirect ''query'') example_store example_req
       (fieldData [(''state'', ''st-1''), (''client_nonce'', ''n-1'')])
     = (Inr (ErrorResponse ''authorization_pending''), example_store)
   \<and> (\<exists>a. pathPoll (example_backend callbackModeDirect ''query'')
              (example_store(''st-1'' \<mapsto> example_request\<lparr>auth := Some example_auth\<rparr>))
              example_req (fieldData [(''state'', ''st-1''), (''client_nonce'', ''n-1'')])
            = (Inr \<lparr>Data = Map.empty, Auth = Some a\<rparr>,
               (example_store(''st-1'' \<mapsto> example_request\<lparr>auth := Some example_auth\<rparr>))
                 (''st-1'' := None))
          \<and> pathPoll (example_backend callbackModeDirect ''query'')
              ((example_store(''st-1'' \<mapsto> example_request\<lparr>auth := Some example_auth\<rparr>))
                 (''st-1'' := None))
              example_req (fieldData [(''state'', ''st-1''), (''client_nonce'', ''n-1'')])
            = (Inr (ErrorResponse ''Vault login failed. Expired or missing OAuth state.''),
               (example_store(''st-1'' \<mapsto> example_request\<lparr>auth := Some example_auth\<rparr>))
                 (''st-1'' := None)))"
proof -
  let ?b = "example_backend callbackModeDirect ''query''"
  let ?d = "fieldData [(''state'', ''st-1''), (''code'', ''good-code''), (''client_nonce'', '''')]"
  let ?p = "fieldData [(''state'', ''st-1''), (''client_nonce'', ''n-1'')]"
  let ?resp = "\<lparr>Data = [HTTPContentType \<mapsto> StringVal ''text/html'',
                    HTTPStatusCode \<mapsto> IntVal StatusOK,
                    HTTPRawBody \<mapsto> BytesVal ''success''],
            Auth = None\<rparr>"
  let ?s' = "example_store(''st-1'' \<mapsto> example_request\<lparr>auth := Some example_auth\<rparr>)"
  note t = direct_mode_poll_delivery
    [where b = "?b" and s = example_store and d = "?d" and r = example_request
       and req = example_req and config = "example_config ''query''"
       and role = "example_role callbackModeDirect" and resp = "?resp" and s' = "?s'"
       and p = "?p" and p' = "?p"]
  have d: "?d ''state'' = ''st-1''" and p: "?p ''state'' = ''st-1''"
    and pn: "?p ''client_nonce'' = ''n-1''"
    by (simp_all add: fieldData_def)
  have 1: "b_config ?b = Inr (Some (example_config ''query''))"
    by (simp add: example_backend_def)
  have 2: "example_store ''st-1'' = Some example_request"
    by (simp add: example_store_def)
  have 3: "auth example_request = None" and n3: "clientNonce example_request = ''n-1''"
    by (simp_all add: example_request_def)
  have 4: "b_role ?b (rolename example_request) = Inr (Some (example_role callbackModeDirect))"
    by (simp add: example_backend_def example_request_def)
  have 5: "CallbackMode (example_role callbackModeDirect) = callbackModeDirect"
    by (simp add: example_role_def)
  have 6: "pathCallback ?b example_store example_req ?d = (Inr ?resp, ?s')"
    by (rule example_direct_callback)
  have 7: "Data ?resp HTTPStatusCode = Some (IntVal StatusOK)"
    by (simp add: HTTPStatusCode_def HTTPRawBody_def HTTPContentType_def)
  have "example_store (?p ''state'') = Some example_request \<and> auth example_request = None
      \<and> (clientNonce example_request = '''' \<or> ?p ''client_nonce'' = clientNonce example_request)"
    using 2 3 n3 p pn by simp
  with direct_mode_poll_delivery
      [where b = "?b" and s = example_store and d = "?p" and r = example_request
         and req = example_req, THEN conjunct1]
  have pending: "pathPoll ?b example_store example_req ?p
     = (Inr (ErrorResponse ''authorization_pending''), example_store)"
    by (rule mp)
  have "b_config ?b = Inr (Some (example_config ''query''))
      \<and> example_store (?d ''state'') = Some example_request \<and> auth example_request = None
      \<and> b_role ?b (rolename example_request) = Inr (Some (example_role callbackModeDirect))
      \<and> CallbackMode (example_role callbackModeDirect) = callbackModeDirect
      \<and> pathCallback ?b example_store example_req ?d = (Inr ?resp, ?s')
      \<and> Data ?resp HTTPStatusCode = Some (IntVal StatusOK)
      \<and> ?p ''state'' = ?d ''state'' \<and> ?p ''state'' = ?d ''state''
      \<and> (clientNonce example_request = '''' \<or> ?p ''client_nonce'' = clientNonce example_request)"
    unfolding d p pn using 1 2 3 n3 4 5 6 7 by (intro conjI disjI2) simp_all
  with t [THEN conjunct2]
  have "\<exists>a. ?s' (?d ''state'') = Some (example_request\<lparr>auth := Some a\<rparr>)
          \<and> pathPoll ?b ?s' example_req ?p
               = (Inr \<lparr>Data = Map.empty, Auth = Some a\<rparr>, ?s'(?d ''state'' := None))
          \<and> pathPoll ?b (?s'(?d ''state'' := None)) example_req ?p
               = (Inr (ErrorResponse ''Vault login failed. Expired or missing OAuth state.''),
                  ?s'(?d ''state'' := None))"
    by (rule mp)
  then have "\<exists>a. pathPoll ?b ?s' example_req ?p
               = (Inr \<lparr>Data = Map.empty, Auth = Some a\<rparr>, ?s'(''st-1'' := None))
          \<and> pathPoll ?b (?s'(''st-1'' := None)) example_req ?p
               = (Inr (ErrorResponse ''Vault login failed. Expired or missing OAuth state.''),
                  ?s'(''st-1'' := None))"
    unfolding d by (elim exE conjE, intro exI conjI)
  with pending show ?thesis
    by (rule conjI)
qed

text \<open>
  C5 as stated promises "authorization_pending", with the entry left in the store, for
  every poll of a stored request without credential. A poll with a wrong client nonce
  gets "invalid client_nonce" instead, and the entry is removed.
\<close>

theorem pathPoll_wrong_nonce_counterexample:
  "example_store ''st-1'' = Some example_request
   \<and> auth example_request = None
   \<and> fst (pathPoll (example_backend callbackModeDirect ''query'') example_store example_req
            (fieldData [(''state'', ''st-1''), (''client_nonce'', ''wrong'')]))
       = Inr (ErrorResponse ''invalid client_nonce'')
   \<and> fst (pathPoll (example_backend callbackModeDirect ''query'') example_store example_req
            (fieldData [(''state'', ''st-1''), (''client_nonce'', ''wrong'')]))
       \<noteq> Inr (ErrorResponse ''authorization_pending'')
   \<and> snd (pathPoll (example_backend callbackModeDirect ''query'') example_store example_req
            (fieldData [(''state'', ''st-1''), (''client_nonce'', ''wrong'')])) ''st-1''
       = None"
  by (simp add: pathPoll_def getOIDCRequest_def deleteOIDCRequest_def ErrorResponse_eq_iff
      example_store_def example_request_def fieldData_def)

section \<open>The client nonce\<close>

lemma pathCallback_client_mismatch:
  assumes "b_config b = Inr (Some config)"
    and "s (d ''state'') = Some r"
    and "auth r = None"
    and "b_role b (rolename r) = Inr (Some role)"
    and "CallbackMode role \<noteq> callbackModeDirect"
    and "d ''error_description'' = ''''"
    and "clientNonce r \<noteq> ''''"
    and "d ''client_nonce'' \<noteq> clientNonce r"
  shows "pathCallback b s req d = (Inr (ErrorResponse ''invalid client_nonce''), s(d ''state'' := None))"
  using assms
  by (simp add: pathCallback_def getOIDCRequest_def deleteOIDCRequest_def Let_def)

lemma pathCallback_direct_ignores_nonce:
  assumes "b_config b = Inr (Some config)"
    and "s (d ''state'') = Some r"
    and "b_role b (rolename r) = Inr (Some role)"
    and "CallbackMode role = callbackModeDirect"
  shows "pathCallback b s req (d(''client_nonce'' := n)) = pathCallback b s req d"
proof -
  have cc: "callbackCode (d(''client_nonce'' := n)) r = callbackCode d r"
    by (simp add: callbackCode_def)
  have "callbackLogin b s req (d(''client_nonce'' := n)) config role (rolename r) True (d ''state'') r
      = callbackLogin b s req d config role (rolename r) True (d ''state'') r"
    unfolding callbackLogin_def cc by (rule refl)
  then show ?thesis
    using assms
    by (simp add: pathCallback_def getOIDCRequest_def Let_def)
qed

text \<open>
  C6, as amended. The stored request has a non-empty client nonce and the call
  supplies a different one. \<open>pathPoll\<close> then fails with "invalid client_nonce" and
  removes the entry, so that a further poll with the same state fails with "Expired or
  missing OAuth state." \<open>pathCallback\<close> does the same when the configuration loads, the
  request has no credential attached, the role exists and is not in direct mode, and
  the provider reported no error description. For a role in direct mode \<open>pathCallback\<close>
  does not read the client nonce at all: its result and the store it leaves are the
  same for every supplied nonce (the check is left to \<open>pathPoll\<close>).
\<close>

theorem client_nonce_mismatch:
  "(s (d ''state'') = Some r \<and> clientNonce r \<noteq> '''' \<and> d ''client_nonce'' \<noteq> clientNonce r
      \<and> p ''state'' = d ''state''
    \<longrightarrow> pathPoll b s req d
          = (Inr (ErrorResponse ''invalid client_nonce''), s(d ''state'' := None))
      \<and> pathPoll b (s(d ''state'' := None)) req p
          = (Inr (ErrorResponse ''Vault login failed. Expired or missing OAuth state.''),
             s(d ''state'' := None)))
   \<and> (b_config b = Inr (Some config) \<and> s (d ''state'') = Some r \<and> auth r = None
      \<and> b_role b (rolename r) = Inr (Some role) \<and> CallbackMode role \<noteq> callbackModeDirect
      \<and> d ''error_description'' = ''''
      \<and> clientNonce r \<noteq> '''' \<and> d ''client_nonce'' \<noteq> clientNonce r
      \<and> p ''state'' = d ''state''
    \<longrightarrow> pathCallback b s req d
          = (Inr (ErrorResponse ''invalid client_nonce''), s(d ''state'' := None))
      \<and> pathPoll b (s(d ''state'' := None)) req p
          = (Inr (ErrorResponse ''Vault login failed. Expired or missing OAuth state.''),
             s(d ''state'' := None)))
   \<and> (b_config b = Inr (Some config) \<and> s (d ''state'') = Some r
      \<and> b_role b (rolename r) = Inr (Some role) \<and> CallbackMode role = callbackModeDirect
    \<longrightarrow> pathCallback b s req (d(''client_nonce'' := n)) = pathCallback b s req d)"
proof (intro conjI impI)
  assume a: "s (d ''state'') = Some r \<and> clientNonce r \<noteq> '''' \<and> d ''client_nonce'' \<noteq> clientNonce r
      \<and> p ''state'' = d ''state''"
  then show "pathPoll b s req d
          = (Inr (ErrorResponse ''invalid client_nonce''), s(d ''state'' := None))"
    using pathPoll_mismatch [of s d r b req] by blast
  from a have "(s(d ''state'' := None)) (p ''state'') = None"
    by simp
  then show "pathPoll b (s(d ''state'' := None)) req p
          = (Inr (ErrorResponse ''Vault login failed. Expired or missing OAuth state.''),
             s(d ''state'' := None))"
    by (rule pathPoll_absent)
next
  assume a: "b_config b = Inr (Some config) \<and> s (d ''state'') = Some r \<and> auth r = None
      \<and> b_role b (rolename r) = Inr (Some role) \<and> CallbackMode role \<noteq> callbackModeDirect
      \<and> d ''error_description'' = ''''
      \<and> clientNonce r \<noteq> '''' \<and> d ''client_nonce'' \<noteq> clientNonce r
      \<and> p ''state'' = d ''state''"
  then show "pathCallback b s req d
          = (Inr (ErrorResponse ''invalid client_nonce''), s(d ''state'' := None))"
    using pathCallback_client_mismatch [of b config s d r role req] by blast
  from a have "(s(d ''state'' := None)) (p ''state'') = None"
    by simp
  then show "pathPoll b (s(d ''state'' := None)) req p
          = (Inr (ErrorResponse ''Vault login failed. Expired or missing OAuth state.''),
             s(d ''state'' := None))"
    by (rule pathPoll_absent)
next
  assume "b_config b = Inr (Some config) \<and> s (d ''state'') = Some r
      \<and> b_role b (rolename r) = Inr (Some role) \<and> CallbackMode role = callbackModeDirect"
  then show "pathCallback b s req (d(''client_nonce'' := n)) = pathCallback b s req d"
    using pathCallback_direct_ignores_nonce [of b config s d r role req n] by blast
qed

text \<open>
  C6 as stated has every callback with a wrong client nonce fail with "invalid
  client_nonce" and lose its entry. For the role in direct mode the callback with the
  wrong nonce succeeds: it returns the success page and the entry stays in the store,
  now with the credential.
\<close>

theorem pathCallback_direct_wrong_nonce_counterexample:
  "clientNonce example_request = ''n-1''
   \<and> pathCallback (example_backend callbackModeDirect ''query'') example_store example_req
       (fieldData [(''state'', ''st-1''), (''code'', ''good-code''), (''client_nonce'', ''wrong'')])
     = (Inr \<lparr>Data = [HTTPContentType \<mapsto> StringVal ''text/html'',
                      HTTPStatusCode \<mapsto> IntVal StatusOK,
                      HTTPRawBody \<mapsto> BytesVal ''success''],
              Auth = None\<rparr>,
        example_store(''st-1'' \<mapsto> example_request\<lparr>auth := Some example_auth\<rparr>))
   \<and> fst (pathCallback (example_backend callbackModeDirect ''query'') example_store example_req
       (fieldData [(''state'', ''st-1''), (''code'', ''good-code''), (''client_nonce'', ''wrong'')]))
     \<noteq> Inr (ErrorResponse ''invalid client_nonce'')"
proof (intro conjI)
  show "clientNonce example_request = ''n-1''"
    by (simp add: example_request_def)
  show "pathCallback (example_backend callbackModeDirect ''query'') example_store example_req
       (fieldData [(''state'', ''st-1''), (''code'', ''good-code''), (''client_nonce'', ''wrong'')])
     = (Inr \<lparr>Data = [HTTPContentType \<mapsto> StringVal ''text/html'',
                      HTTPStatusCode \<mapsto> IntVal StatusOK,
                      HTTPRawBody \<mapsto> BytesVal ''success''],
              Auth = None\<rparr>,
        example_store(''st-1'' \<mapsto> example_request\<lparr>auth := Some example_auth\<rparr>))"
    by (rule example_direct_callback)
  have "\<lparr>Data = [HTTPContentType \<mapsto> StringVal ''text/html'',
                      HTTPStatusCode \<mapsto> IntVal StatusOK,
                      HTTPRawBody \<mapsto> BytesVal ''success''],
              Auth = None\<rparr> \<noteq> ErrorResponse ''invalid client_nonce''"
    by (rule not_ErrorResponse)
      (simp add: HTTPContentType_def HTTPStatusCode_def HTTPRawBody_def)
  then show "fst (pathCallback (example_backend callbackModeDirect ''query'') example_store example_req
       (fieldData [(''state'', ''st-1''), (''code'', ''good-code''), (''client_nonce'', ''wrong'')]))
     \<noteq> Inr (ErrorResponse ''invalid client_nonce'')"
    by (simp add: example_direct_callback)
qed

text \<open>
  The theorem at the example backend: a poll with a wrong nonce, and a callback with a
  wrong nonce for the role in client mode.
\<close>

theorem client_nonce_mismatch_witness:
  "pathPoll (example_backend callbackModeDirect ''query'') example_store example_req
       (fieldData [(''state'', ''st-1''), (''client_nonce'', ''wrong'')])
     = (Inr (ErrorResponse ''invalid client_nonce''), example_store(''st-1'' := None))
   \<and> pathCallback (example_backend callbackModeClient ''query'') example_store example_req
       (fieldData [(''state'', ''st-1''), (''code'', ''good-code''), (''client_nonce'', ''wrong'')])
     = (Inr (ErrorResponse ''invalid client_nonce''), example_store(''st-1'' := None))"
proof
  let ?p = "fieldData [(''state'', ''st-1''), (''client_nonce'', ''wrong'')]"
  let ?d = "fieldData [(''state'', ''st-1''), (''code'', ''good-code''), (''client_nonce'', ''wrong'')]"
  let ?bd = "example_backend callbackModeDirect ''query''"
  let ?bc = "example_backend callbackModeClient ''query''"
  have p: "?p ''state'' = ''st-1''" and pn: "?p ''client_nonce'' = ''wrong''"
    and d: "?d ''state'' = ''st-1''" and dn: "?d ''client_nonce'' = ''wrong''"
    and de: "?d ''error_description'' = ''''"
    by (simp_all add: fieldData_def)
  have st: "example_store ''st-1'' = Some example_request"
    by (simp add: example_store_def)
  have rq: "auth example_request = None" "clientNonce example_request = ''n-1''"
    "rolename example_request = ''dev''"
    by (simp_all add: example_request_def)
  have "example_store (?p ''state'') = Some example_request
      \<and> clientNonce example_request \<noteq> ''''
      \<and> ?p ''client_nonce'' \<noteq> clientNonce example_request
      \<and> ?p ''state'' = ?p ''state''"
    unfolding p pn using st rq by simp
  with client_nonce_mismatch
      [where s = example_store and d = "?p" and r = example_request and p = "?p"
         and b = "?bd" and req = example_req, THEN conjunct1]
  have "pathPoll ?bd example_store example_req ?p
          = (Inr (ErrorResponse ''invalid client_nonce''), example_store(?p ''state'' := None))
      \<and> pathPoll ?bd (example_store(?p ''state'' := None)) example_req ?p
          = (Inr (ErrorResponse ''Vault login failed. Expired or missing OAuth state.''),
             example_store(?p ''state'' := None))"
    by (rule mp)
  then show "pathPoll ?bd example_store example_req ?p
     = (Inr (ErrorResponse ''invalid client_nonce''), example_store(''st-1'' := None))"
    unfolding p by (rule conjunct1)
  have "b_config ?bc = Inr (Some (example_config ''query''))
      \<and> example_store (?d ''state'') = Some example_request \<and> auth example_request = None
      \<and> b_role ?bc (rolename example_request) = Inr (Some (example_role callbackModeClient))
      \<and> CallbackMode (example_role callbackModeClient) \<noteq> callbackModeDirect
      \<and> ?d ''error_description'' = ''''
      \<and> clientNonce example_request \<noteq> ''''
      \<and> ?d ''client_nonce'' \<noteq> clientNonce example_request
      \<and> ?p ''state'' = ?d ''state''"
    unfolding p d dn de using st rq
    by (simp add: example_backend_def example_role_def callbackModeClient_def callbackModeDirect_def)
  with client_nonce_mismatch
      [where s = example_store and d = "?d" and r = example_request and p = "?p"
         and b = "?bc" and req = example_req and config = "example_config ''query''"
         and role = "example_role callbackModeClient", THEN conjunct2, THEN conjunct1]
  have "pathCallback ?bc example_store example_req ?d
          = (Inr (ErrorResponse ''invalid client_nonce''), example_store(?d ''state'' := None))
      \<and> pathPoll ?bc (example_store(?d ''state'' := None)) example_req ?p
          = (Inr (ErrorResponse ''Vault login failed. Expired or missing OAuth state.''),
             example_store(?d ''state'' := None))"
    by (rule mp)
  then show "pathCallback ?bc example_store example_req ?d
     = (Inr (ErrorResponse ''invalid client_nonce''), example_store(''st-1'' := None))"
    unfolding d by (rule conjunct1)
qed

section \<open>Failures of authURL\<close>

text \<open>
  C8. Take a call of \<open>authURL\<close> that reaches the validation of the redirect URI: the
  configuration loads and is an OIDC-flow configuration, role name and redirect URI are
  not empty, the role exists, the nonce check passes and the namespace step has parsed
  the redirect URI. When the redirect URI is not valid for the allow-list of the role,
  when the provider cannot be built, when the request cannot be created, and when the
  provider cannot build the authorization URL, the call returns a response (no error)
  whose data is exactly \<open>auth_url\<close> with the empty string.
\<close>

theorem authURL_failures_give_empty_auth_url:
  assumes "b_config b = Inr (Some config)"
    and "authType b config = OIDCFlow b"
    and "roleName = (if d ''role'' = '''' then DefaultRole config else d ''role'')"
    and "roleName \<noteq> ''''"
    and "d ''redirect_uri'' \<noteq> ''''"
    and "b_role b roleName = Inr (Some role)"
    and "d ''client_nonce'' \<noteq> '''' \<or> CallbackMode role = callbackModeClient"
    and "authURL_namespace b config (d ''redirect_uri'') = Some (namespace, redirectURI)"
    and "redirectURI' = (if OIDCResponseMode config = responseModeFormPost
                         then strings_Replace1 redirectURI ''ui/vault'' ''v1''
                         else redirectURI)"
  shows "(\<not> validRedirect (netURL b) redirectURI (AllowedRedirectURIs role)
            \<longrightarrow> authURL b s req d
                  = (Inr \<lparr>Data = [''auth_url'' \<mapsto> StringVal ''''], Auth = None\<rparr>, s))
       \<and> (validRedirect (netURL b) redirectURI (AllowedRedirectURIs role)
            \<and> b_getProvider b config = Inl err
            \<longrightarrow> authURL b s req d
                  = (Inr \<lparr>Data = [''auth_url'' \<mapsto> StringVal ''''], Auth = None\<rparr>, s))
       \<and> (validRedirect (netURL b) redirectURI (AllowedRedirectURIs role)
            \<and> b_getProvider b config = Inr provider
            \<and> createOIDCRequest b s config role roleName redirectURI' (d ''client_nonce'')
                = (Inl err, s')
            \<longrightarrow> authURL b s req d
                  = (Inr \<lparr>Data = [''auth_url'' \<mapsto> StringVal ''''], Auth = None\<rparr>, s))
       \<and> (validRedirect (netURL b) redirectURI (AllowedRedirectURIs role)
            \<and> b_getProvider b config = Inr provider
            \<and> createOIDCRequest b s config role roleName redirectURI' (d ''client_nonce'')
                = (Inr oidcReq, s')
            \<and> AuthURL provider oidcReq = Inl err
            \<longrightarrow> authURL b s req d
                  = (Inr \<lparr>Data = [''auth_url'' \<mapsto> StringVal ''''], Auth = None\<rparr>, s'))"
proof -
  have start: "authURL b s req d
      = authURL_request b s config role roleName (d ''client_nonce'') namespace redirectURI"
    using assms(1-8) by (auto simp: authURL_def)
  show ?thesis
  proof (intro conjI impI)
    assume "\<not> validRedirect (netURL b) redirectURI (AllowedRedirectURIs role)"
    then show "authURL b s req d
                  = (Inr \<lparr>Data = [''auth_url'' \<mapsto> StringVal ''''], Auth = None\<rparr>, s)"
      unfolding start by (simp add: authURL_request_def emptyAuthURL_def)
  next
    assume "validRedirect (netURL b) redirectURI (AllowedRedirectURIs role)
            \<and> b_getProvider b config = Inl err"
    then show "authURL b s req d
                  = (Inr \<lparr>Data = [''auth_url'' \<mapsto> StringVal ''''], Auth = None\<rparr>, s)"
      unfolding start by (simp add: authURL_request_def emptyAuthURL_def)
  next
    assume a: "validRedirect (netURL b) redirectURI (AllowedRedirectURIs role)
            \<and> b_getProvider b config = Inr provider
            \<and> createOIDCRequest b s config role roleName redirectURI' (d ''client_nonce'')
                = (Inl err, s')"
    then have "s' = s"
      using createOIDCRequest_error_store by blast
    with a show "authURL b s req d
                  = (Inr \<lparr>Data = [''auth_url'' \<mapsto> StringVal ''''], Auth = None\<rparr>, s)"
      unfolding start using assms(9)
      by (simp add: authURL_request_def emptyAuthURL_def)
  next
    assume "validRedirect (netURL b) redirectURI (AllowedRedirectURIs role)
            \<and> b_getProvider b config = Inr provider
            \<and> createOIDCRequest b s config role roleName redirectURI' (d ''client_nonce'')
                = (Inr oidcReq, s')
            \<and> AuthURL provider oidcReq = Inl err"
    then show "authURL b s req d
                  = (Inr \<lparr>Data = [''auth_url'' \<mapsto> StringVal ''''], Auth = None\<rparr>, s')"
      unfolding start using assms(9)
      by (simp add: authURL_request_def emptyAuthURL_def)
  qed
qed

text \<open>
  The theorem at the example backend: a redirect URI outside the allow-list gives the
  empty authorization URL.
\<close>

theorem authURL_failures_give_empty_auth_url_witness:
  "authURL (example_backend callbackModeClient ''query'') Map.empty example_req
     (fieldData [(''role'', ''dev''), (''redirect_uri'', ''https://evil.example/cb'')])
   = (Inr \<lparr>Data = [''auth_url'' \<mapsto> StringVal ''''], Auth = None\<rparr>, Map.empty)"
proof -
  let ?b = "example_backend callbackModeClient ''query''"
  let ?d = "fieldData [(''role'', ''dev''), (''redirect_uri'', ''https://evil.example/cb'')]"
  have d: "?d ''role'' = ''dev''" "?d ''redirect_uri'' = ''https://evil.example/cb''"
    "?d ''client_nonce'' = ''''"
    by (simp_all add: fieldData_def)
  have 1: "b_config ?b = Inr (Some (example_config ''query''))"
    and 2: "authType ?b (example_config ''query'') = OIDCFlow ?b"
    and 6: "b_role ?b ''dev'' = Inr (Some (example_role callbackModeClient))"
    by (simp_all add: example_backend_def)
  have 3: "''dev'' = (if ?d ''role'' = '''' then DefaultRole (example_config ''query'') else ?d ''role'')"
    unfolding d by simp
  have 4: "''dev'' \<noteq> ''''" by simp
  have 5: "?d ''redirect_uri'' \<noteq> ''''" unfolding d by simp
  have 7: "?d ''client_nonce'' \<noteq> '''' \<or> CallbackMode (example_role callbackModeClient) = callbackModeClient"
    by (simp add: example_role_def)
  have 8: "authURL_namespace ?b (example_config ''query'') (?d ''redirect_uri'')
             = Some ('''', ''https://evil.example/cb'')"
    unfolding d by (simp add: authURL_namespace_def example_config_def)
  have 9: "''https://evil.example/cb''
      = (if OIDCResponseMode (example_config ''query'') = responseModeFormPost
         then strings_Replace1 ''https://evil.example/cb'' ''ui/vault'' ''v1''
         else ''https://evil.example/cb'')"
    by (simp add: example_config_def responseModeFormPost_def)
  have bad: "\<not> validRedirect (netURL ?b) ''https://evil.example/cb''
               (AllowedRedirectURIs (example_role callbackModeClient))"
    by (simp add: validRedirect_def StrListContains_def example_backend_def example_role_def
        example_url_def example_Parse_def example_Hostname_def)
  from authURL_failures_give_empty_auth_url
    [where s = Map.empty and req = example_req, OF 1 2 3 4 5 6 7 8 9, THEN conjunct1] bad
  show ?thesis
    by (rule mp)
qed

section \<open>The sentinel code of the form-post flow\<close>










section \<open>Malformed entries of the allow-list\<close>

text \<open>
  What \<open>validRedirect\<close> does, for every net/url: a candidate that does not parse never
  validates; a candidate whose host name is not a loopback name validates exactly when
  it is a member of the allow-list; a loopback candidate validates against an allow-list
  whose entries all parse exactly when one of them has the same string once both hosts
  are replaced by their host names; and a loopback candidate is refused, whatever
  follows, by an allow-list whose first entry does not parse.
\<close>

lemma validRedirect_loop_malformed_first:
  "url_Parse L a = Inl err \<Longrightarrow> validRedirect_loop L u (a # allowed) = False"
  by simp

lemma validRedirect_malformed_candidate:
  "url_Parse L uri = Inl err \<Longrightarrow> \<not> validRedirect L uri allowed"
  by (simp add: validRedirect_def)

lemma validRedirect_not_loopback:
  "url_Parse L uri = Inr u \<Longrightarrow> url_Hostname L u \<notin> {''localhost'', ''127.0.0.1'', ''::1''}
   \<Longrightarrow> validRedirect L uri allowed = (uri \<in> set allowed)"
  by (simp add: validRedirect_def StrListContains_def)

lemma validRedirect_loop_wellformed:
  "\<forall>a \<in> set allowed. \<not> isl (url_Parse L a) \<Longrightarrow>
   validRedirect_loop L u allowed
     = (\<exists>a \<in> set allowed. url_String L u
          = url_String L ((projr (url_Parse L a))\<lparr>Host := url_Hostname L (projr (url_Parse L a))\<rparr>))"
  by (induction allowed) (auto split: sum.splits)

lemma validRedirect_loopback_wellformed:
  assumes "url_Parse L uri = Inr u"
    and "url_Hostname L u \<in> {''localhost'', ''127.0.0.1'', ''::1''}"
    and "\<forall>a \<in> set allowed. \<not> isl (url_Parse L a)"
  shows "validRedirect L uri allowed
     = (\<exists>a \<in> set allowed. url_String L (u\<lparr>Host := url_Hostname L u\<rparr>)
          = url_String L ((projr (url_Parse L a))\<lparr>Host := url_Hostname L (projr (url_Parse L a))\<rparr>))"
proof -
  have "validRedirect L uri allowed
          = validRedirect_loop L (u\<lparr>Host := url_Hostname L u\<rparr>) allowed"
    using assms(1,2) by (auto simp: validRedirect_def StrListContains_def)
  then show ?thesis
    using validRedirect_loop_wellformed [OF assms(3)] by simp
qed

lemma validRedirect_loopback_malformed_first:
  assumes "url_Parse L uri = Inr u"
    and "url_Hostname L u \<in> {''localhost'', ''127.0.0.1'', ''::1''}"
    and "url_Parse L a = Inl err"
  shows "\<not> validRedirect L uri (a # allowed)"
  using assms by (auto simp: validRedirect_def StrListContains_def)

text \<open>
  C2. The claim says that a malformed allow-list entry counts as an entry that does
  not match. The loop returns false at the first entry that does not parse: with the
  entry \<open>:8250/oidc/callback\<close> (no scheme) in front of the entry that is the candidate
  itself, the loopback candidate is refused, though it validates against the allow-list
  without the malformed entry.
\<close>

theorem validRedirect_malformed_entry_failing_input:
  "validRedirect example_url ''http://localhost:8250/oidc/callback''
     ['':8250/oidc/callback'', ''http://localhost:8250/oidc/callback''] = False
   \<and> filter (\<lambda>a. \<not> isl (url_Parse example_url a))
        ['':8250/oidc/callback'', ''http://localhost:8250/oidc/callback'']
       = [''http://localhost:8250/oidc/callback'']
   \<and> validRedirect example_url ''http://localhost:8250/oidc/callback''
        [''http://localhost:8250/oidc/callback''] = True"
  by (simp add: validRedirect_def StrListContains_def example_url_def example_Parse_def
      example_Hostname_def example_String_def)

text \<open>
  C7. The candidate \<open>http://127.0.0.1:4321/cb\<close> validates against the allow-list that
  holds only \<open>http://127.0.0.1:9999/cb\<close>, and against the one that holds it followed by
  a malformed entry, but not against the one that holds it after a malformed entry.
\<close>

theorem validRedirect_loopback_failing_input:
  "validRedirect example_url ''http://127.0.0.1:4321/cb''
     ['':9999/cb'', ''http://127.0.0.1:9999/cb''] = False
   \<and> validRedirect example_url ''http://127.0.0.1:4321/cb'' [''http://127.0.0.1:9999/cb''] = True
   \<and> validRedirect example_url ''http://127.0.0.1:4321/cb''
       [''http://127.0.0.1:9999/cb'', '':9999/cb''] = True"
  by (simp add: validRedirect_def StrListContains_def example_url_def example_Parse_def
      example_Hostname_def example_String_def)

end
